theory Spec2Isabelle
  imports Complex_Main "HOL-Library.Word"
begin

section \<open>Python values\<close>

text \<open>
  A Python \<open>float\<close> is an IEEE 754 binary64 value. It is modelled as an exact real
  number or one of the three special values. Arithmetic on finite values is exact
  (rounding is not modelled); a result whose magnitude reaches the binary64 overflow
  threshold becomes an infinity for \<open>+\<close>, \<open>-\<close>, \<open>*\<close>, \<open>/\<close>, and raises \<open>OverflowError\<close>
  for \<open>**\<close> and for \<open>float(int)\<close>, as CPython does. Negative zero is identified with zero.
\<close>

datatype pyfloat = Fin real | PInf | NInf | NaN

datatype py_error =
    OverflowError | ValueError | ZeroDivisionError | KeyError | IndexError | TypeError
  | AttributeError | RequestError | ImportError | LoadError | RuntimeError
  | ComplexResult

text \<open>The values a decoded JSON document or a price dictionary can hold.\<close>

datatype pyval =
    PNone | PBool bool | PInt int | PFloat pyfloat | PStr string
  | PList "pyval list" | PDict "(string \<times> pyval) list"

text \<open>A \<open>dict\<close> with string keys, in insertion order.\<close>

type_synonym pydict = "(string \<times> pyval) list"

definition dbl_overflow :: "real \<Rightarrow> bool" where
  "dbl_overflow r \<longleftrightarrow> 2 ^ 1024 - 2 ^ 970 \<le> \<bar>r\<bar>"

definition rnd :: "real \<Rightarrow> pyfloat" where
  "rnd r = (if dbl_overflow r then (if 0 < r then PInf else NInf) else Fin r)"

fun pf_neg :: "pyfloat \<Rightarrow> pyfloat" where
  "pf_neg (Fin a) = Fin (- a)"
| "pf_neg PInf = NInf"
| "pf_neg NInf = PInf"
| "pf_neg NaN = NaN"

fun pf_add :: "pyfloat \<Rightarrow> pyfloat \<Rightarrow> pyfloat" where
  "pf_add NaN _ = NaN"
| "pf_add _ NaN = NaN"
| "pf_add PInf NInf = NaN"
| "pf_add NInf PInf = NaN"
| "pf_add PInf _ = PInf"
| "pf_add _ PInf = PInf"
| "pf_add NInf _ = NInf"
| "pf_add _ NInf = NInf"
| "pf_add (Fin a) (Fin b) = rnd (a + b)"

definition pf_sub :: "pyfloat \<Rightarrow> pyfloat \<Rightarrow> pyfloat" where
  "pf_sub a b = pf_add a (pf_neg b)"

fun pf_mul :: "pyfloat \<Rightarrow> pyfloat \<Rightarrow> pyfloat" where
  "pf_mul NaN _ = NaN"
| "pf_mul _ NaN = NaN"
| "pf_mul (Fin a) (Fin b) = rnd (a * b)"
| "pf_mul (Fin a) PInf = (if a = 0 then NaN else if 0 < a then PInf else NInf)"
| "pf_mul (Fin a) NInf = (if a = 0 then NaN else if 0 < a then NInf else PInf)"
| "pf_mul PInf (Fin b) = (if b = 0 then NaN else if 0 < b then PInf else NInf)"
| "pf_mul NInf (Fin b) = (if b = 0 then NaN else if 0 < b then NInf else PInf)"
| "pf_mul PInf PInf = PInf"
| "pf_mul NInf NInf = PInf"
| "pf_mul PInf NInf = NInf"
| "pf_mul NInf PInf = NInf"

text \<open>\<open>a / b\<close>: a zero divisor raises, every other case follows IEEE 754.\<close>

fun pf_div :: "pyfloat \<Rightarrow> pyfloat \<Rightarrow> py_error + pyfloat" where
  "pf_div a (Fin b) =
     (if b = 0 then Inl ZeroDivisionError
      else Inr (case a of
                  Fin x \<Rightarrow> rnd (x / b)
                | PInf \<Rightarrow> (if 0 < b then PInf else NInf)
                | NInf \<Rightarrow> (if 0 < b then NInf else PInf)
                | NaN \<Rightarrow> NaN))"
| "pf_div (Fin a) PInf = Inr (Fin 0)"
| "pf_div (Fin a) NInf = Inr (Fin 0)"
| "pf_div _ _ = Inr NaN"

text \<open>\<open>x ** 2\<close>: CPython raises \<open>OverflowError\<close> when a finite base overflows.\<close>

fun pf_pow2 :: "pyfloat \<Rightarrow> py_error + pyfloat" where
  "pf_pow2 (Fin a) = (if dbl_overflow (a * a) then Inl OverflowError else Inr (Fin (a * a)))"
| "pf_pow2 PInf = Inr PInf"
| "pf_pow2 NInf = Inr PInf"
| "pf_pow2 NaN = Inr NaN"

text \<open>
  \<open>x ** 0.5\<close>. For a negative finite base Python returns a \<open>complex\<close>; the model
  marks that case instead of inventing a float.
\<close>

fun pf_sqrt :: "pyfloat \<Rightarrow> py_error + pyfloat" where
  "pf_sqrt (Fin a) = (if a < 0 then Inl ComplexResult else Inr (Fin (sqrt a)))"
| "pf_sqrt PInf = Inr PInf"
| "pf_sqrt NInf = Inr PInf"
| "pf_sqrt NaN = Inr NaN"

text \<open>Comparisons: every comparison with NaN is false, except \<open>!=\<close>.\<close>

fun pf_lt :: "pyfloat \<Rightarrow> pyfloat \<Rightarrow> bool" where
  "pf_lt NaN _ = False"
| "pf_lt _ NaN = False"
| "pf_lt (Fin a) (Fin b) = (a < b)"
| "pf_lt _ NInf = False"
| "pf_lt NInf _ = True"
| "pf_lt PInf _ = False"
| "pf_lt _ PInf = True"

definition pf_gt :: "pyfloat \<Rightarrow> pyfloat \<Rightarrow> bool" where
  "pf_gt a b = pf_lt b a"

definition pf_ne0 :: "pyfloat \<Rightarrow> bool" where
  "pf_ne0 a = (a \<noteq> Fin 0)"

text \<open>\<open>sum(xs)\<close> starts from the integer 0 and adds from the left.\<close>

definition py_sum :: "pyfloat list \<Rightarrow> pyfloat" where
  "py_sum xs = foldl pf_add (Fin 0) xs"

text \<open>
  \<open>max(xs)\<close> and \<open>min(xs)\<close> keep the first element and replace it by a later one
  that compares strictly greater (smaller); an empty list raises \<open>ValueError\<close>.
\<close>

fun py_max :: "pyfloat list \<Rightarrow> py_error + pyfloat" where
  "py_max [] = Inl ValueError"
| "py_max (x # xs) = Inr (foldl (\<lambda>m y. if pf_gt y m then y else m) x xs)"

fun py_min :: "pyfloat list \<Rightarrow> py_error + pyfloat" where
  "py_min [] = Inl ValueError"
| "py_min (x # xs) = Inr (foldl (\<lambda>m y. if pf_lt y m then y else m) x xs)"

text \<open>List subscription \<open>xs[i]\<close>; an index below zero is taken from the right end.\<close>

definition py_index :: "'a list \<Rightarrow> int \<Rightarrow> py_error + 'a" where
  "py_index xs i =
     (if 0 \<le> i \<and> i < int (length xs) then Inr (xs ! nat i)
      else if i < 0 \<and> - int (length xs) \<le> i then Inr (xs ! nat (int (length xs) + i))
      else Inl IndexError)"

text \<open>\<open>int(x)\<close> truncates towards zero and raises on NaN and the infinities.\<close>

fun py_int :: "pyfloat \<Rightarrow> py_error + int" where
  "py_int (Fin a) = Inr (if 0 \<le> a then \<lfloor>a\<rfloor> else \<lceil>a\<rceil>)"
| "py_int NaN = Inl ValueError"
| "py_int PInf = Inl OverflowError"
| "py_int NInf = Inl OverflowError"

text \<open>\<open>isinstance(v, (int, float))\<close>; \<open>bool\<close> is a subclass of \<open>int\<close>.\<close>

fun is_number :: "pyval \<Rightarrow> bool" where
  "is_number (PBool _) = True"
| "is_number (PInt _) = True"
| "is_number (PFloat _) = True"
| "is_number _ = False"

text \<open>\<open>float(v)\<close> for a value that passed the \<open>isinstance\<close> check.\<close>

fun py_float :: "pyval \<Rightarrow> py_error + pyfloat" where
  "py_float (PBool b) = Inr (Fin (if b then 1 else 0))"
| "py_float (PInt n) =
     (if dbl_overflow (of_int n) then Inl OverflowError else Inr (Fin (of_int n)))"
| "py_float (PFloat f) = Inr f"
| "py_float _ = Inl TypeError"

text \<open>Sequencing of computations that may raise.\<close>

definition bind_err :: "py_error + 'a \<Rightarrow> ('a \<Rightarrow> py_error + 'b) \<Rightarrow> py_error + 'b" where
  "bind_err m f = (case m of Inl e \<Rightarrow> Inl e | Inr x \<Rightarrow> f x)"

fun map_err :: "('a \<Rightarrow> py_error + 'b) \<Rightarrow> 'a list \<Rightarrow> py_error + 'b list" where
  "map_err f [] = Inr []"
| "map_err f (x # xs) =
     bind_err (f x) (\<lambda>y. bind_err (map_err f xs) (\<lambda>ys. Inr (y # ys)))"

section \<open>Feature builder: \<open>AIInferenceService.prepare_features\<close>\<close>

text \<open>
  The inner loop over one category: the numeric values of the dictionary, in
  insertion order, converted by \<open>float\<close>.
\<close>

definition category_values :: "pydict \<Rightarrow> py_error + pyfloat list" where
  "category_values d = map_err py_float (filter is_number (map snd d))"

text \<open>\<open>oracle_prices.get(category, {})\<close>.\<close>

definition get_category :: "(string \<rightharpoonup> pydict) \<Rightarrow> string \<Rightarrow> pydict" where
  "get_category oracle_prices c = (case oracle_prices c of None \<Rightarrow> [] | Some d \<Rightarrow> d)"

definition collect_values :: "(string \<rightharpoonup> pydict) \<Rightarrow> py_error + pyfloat list" where
  "collect_values oracle_prices =
     bind_err (map_err (\<lambda>c. category_values (get_category oracle_prices c))
                 [''forex'', ''commodities'', ''crypto''])
       (\<lambda>vss. Inr (concat vss))"

text \<open>The two counting generators, \<open>sum(1 for i in range(len(v)-1) if v[i] > v[i+1])\<close>.\<close>

definition count_gt :: "pyfloat list \<Rightarrow> nat" where
  "count_gt v = length (filter (\<lambda>i. pf_gt (v ! i) (v ! (i + 1))) [0 ..< length v - 1])"

definition count_lt :: "pyfloat list \<Rightarrow> nat" where
  "count_lt v = length (filter (\<lambda>i. pf_lt (v ! i) (v ! (i + 1))) [0 ..< length v - 1])"

text \<open>
  The body of the \<open>if len(oracle_values) >= 7\<close> branch: the fourteen appended values,
  computed in the order of the source. The two counts are Python \<open>int\<close>s in the
  source list; they are carried as the float of the same value.
\<close>

definition indicators :: "pyfloat list \<Rightarrow> py_error + pyfloat list" where
  "indicators v =
     (let n = Fin (of_nat (length v)) in
      bind_err (pf_div (py_sum v) n) (\<lambda>moving_average.
      bind_err (py_index v 0) (\<lambda>first.
      bind_err (py_index v (- 1)) (\<lambda>lst.
      bind_err (pf_div (py_sum v) n) (\<lambda>mean.
      bind_err (map_err (\<lambda>x. pf_pow2 (pf_sub x mean)) v) (\<lambda>sq.
      bind_err (pf_div (py_sum sq) n) (\<lambda>variance.
      bind_err (pf_sqrt variance) (\<lambda>volatility.
      bind_err (py_max v) (\<lambda>mx.
      bind_err (py_min v) (\<lambda>mn.
      bind_err (if pf_ne0 lst then pf_div first lst else Inr (Fin 1)) (\<lambda>ratio.
      bind_err (if pf_ne0 mx then pf_div (pf_sub mx mn) mx else Inr (Fin 0)) (\<lambda>range.
      Inr [moving_average, pf_sub first lst, volatility,
           mx, mn, first, lst,
           Fin (of_nat (count_gt v)), Fin (of_nat (count_lt v)),
           ratio, range,
           Fin 0, Fin 0, Fin 0]))))))))))))"

definition prepare_features :: "(string \<rightharpoonup> pydict) \<Rightarrow> 'm \<Rightarrow> py_error + pyfloat list" where
  "prepare_features oracle_prices market_data =
     bind_err (collect_values oracle_prices) (\<lambda>vals.
       let oracle_values = take 7 (vals @ replicate 7 (Fin 0));
           features = oracle_values
       in bind_err (if 7 \<le> length oracle_values then indicators oracle_values
                    else Inr (replicate 14 (Fin 0)))
            (\<lambda>ind. Inr (take 21 (features @ ind))))"

section \<open>Confidence predictor: \<open>AIInferenceService\<close>\<close>

text \<open>
  A loaded ONNX session is modelled by what \<open>_run_onnx_inference\<close> asks of it:
  from the feature list it yields the scalar \<open>result[0][0]\<close>, or raises (a bad input
  shape, a runtime failure, a missing output).
\<close>

type_synonym session = "pyfloat list \<Rightarrow> py_error + pyfloat"

record ai_state =
  session :: "session option"
  model_path :: string
  model_loaded :: bool
  prediction_cache :: "int \<rightharpoonup> int"

text \<open>
  The libraries the service calls, taken as parameters: \<open>hashlib.md5\<close> (the 128-bit
  digest), NumPy's global generator (\<open>'r\<close> is its state; \<open>seed\<close> replaces the
  state, a draw returns a finite float and the next state), \<open>onnxruntime\<close> (loading a
  model file raises or gives a session; a missing package raises \<open>ImportError\<close>) and
  \<open>os.path.exists\<close>.
\<close>

record 'r library =
  md5_digest :: "string \<Rightarrow> 128 word"
  np_seed :: "nat \<Rightarrow> 'r"
  np_normal :: "'r \<Rightarrow> real \<Rightarrow> real \<Rightarrow> real \<times> 'r"
  np_uniform :: "'r \<Rightarrow> real \<Rightarrow> real \<Rightarrow> real \<times> 'r"
  ort_load :: "string \<Rightarrow> py_error + session"
  path_exists :: "string \<Rightarrow> bool"

text \<open>\<open>__init__\<close>: the session is loaded only if the file exists and loading succeeds.\<close>

definition init_ai :: "'r library \<Rightarrow> string \<Rightarrow> ai_state" where
  "init_ai lib path =
     (if path_exists lib path then
        (case ort_load lib path of
           Inr sess \<Rightarrow>
             \<lparr>session = Some sess, model_path = path, model_loaded = True,
              prediction_cache = Map.empty\<rparr>
         | Inl e \<Rightarrow>
             \<lparr>session = None, model_path = path, model_loaded = False,
              prediction_cache = Map.empty\<rparr>)
      else \<lparr>session = None, model_path = path, model_loaded = False,
             prediction_cache = Map.empty\<rparr>)"

text \<open>\<open>str(market_id)\<close>: the decimal digits, with a sign for negative numbers.\<close>

definition digit_char :: "nat \<Rightarrow> char" where
  "digit_char d = char_of (48 + d)"

function str_nat :: "nat \<Rightarrow> string" where
  "str_nat n = (if n < 10 then [digit_char n] else str_nat (n div 10) @ [digit_char (n mod 10)])"
  by pat_completeness auto
termination
  by (relation "measure id") auto

definition str_int :: "int \<Rightarrow> string" where
  "str_int i = (if i < 0 then CHR ''-'' # str_nat (nat (- i)) else str_nat (nat i))"

text \<open>
  \<open>int(hashlib.md5(str(market_id).encode()).hexdigest()[:8], 16)\<close>: the first eight
  hexadecimal digits are the top 32 bits of the digest.
\<close>

definition market_seed :: "'r library \<Rightarrow> int \<Rightarrow> nat" where
  "market_seed lib market_id = unat (drop_bit 96 (md5_digest lib (str_int market_id)))"

text \<open>Python's \<open>x % 30\<close> on floats: the result has the sign of the divisor.\<close>

fun pf_mod30 :: "pyfloat \<Rightarrow> pyfloat" where
  "pf_mod30 (Fin a) = Fin (a - 30 * of_int \<lfloor>a / 30\<rfloor>)"
| "pf_mod30 _ = NaN"

text \<open>
  \<open>_fallback_prediction\<close>. It reseeds the global generator, so the generator state
  it is entered with is an argument and the state it leaves is part of the result.
\<close>

definition fallback_prediction ::
  "'r library \<Rightarrow> 'r \<Rightarrow> int \<Rightarrow> pyfloat list option \<Rightarrow> (py_error + int) \<times> 'r" where
  "fallback_prediction lib rng market_id features =
     (let seed = market_seed lib market_id;
          rng1 = np_seed lib (seed mod 2 ^ 32)
      in case features of
           Some (x # xs) \<Rightarrow>
             (let feature_sum = py_sum (x # xs);
                  base_confidence = pf_sub (pf_add (Fin 50) (pf_mod30 feature_sum)) (Fin 15);
                  (noise, rng2) = np_normal lib rng1 0 10
              in (bind_err (py_int (pf_add base_confidence (Fin noise)))
                    (\<lambda>confidence. Inr (max 5 (min 95 confidence))), rng2))
         | _ \<Rightarrow>
             (let (u, rng2) = np_uniform lib rng1 40 80
              in (bind_err (py_int (Fin u))
                    (\<lambda>confidence. Inr (max 5 (min 95 confidence))), rng2)))"

text \<open>\<open>_run_onnx_inference\<close>: every exception inside it is answered by 50.\<close>

definition run_onnx_inference :: "ai_state \<Rightarrow> pyfloat list \<Rightarrow> int" where
  "run_onnx_inference s features =
     (case bind_err (case session s of None \<Rightarrow> Inl AttributeError | Some run \<Rightarrow> run features)
             (\<lambda>raw. bind_err (py_int (pf_mul raw (Fin 100)))
                (\<lambda>confidence. Inr (max 0 (min 100 confidence))))
      of Inr c \<Rightarrow> c | Inl e \<Rightarrow> 50)"

text \<open>Truthiness of \<open>features\<close>: \<open>None\<close> and the empty list are false.\<close>

fun truthy :: "pyfloat list option \<Rightarrow> bool" where
  "truthy None = False"
| "truthy (Some []) = False"
| "truthy (Some (x # xs)) = True"

text \<open>
  \<open>predict\<close>. The result is the confidence, the service state and the generator
  state. An exception in the \<open>try\<close> block returns 50 and stores nothing.
\<close>

definition predict ::
  "'r library \<Rightarrow> ai_state \<Rightarrow> 'r \<Rightarrow> int \<Rightarrow> pyfloat list option \<Rightarrow> int \<times> ai_state \<times> 'r" where
  "predict lib s rng market_id features =
     (case prediction_cache s market_id of
        Some c \<Rightarrow> (c, s, rng)
      | None \<Rightarrow>
          (if model_loaded s \<and> session s \<noteq> None \<and> truthy features then
             (let confidence = run_onnx_inference s (the features)
              in (confidence,
                  s\<lparr>prediction_cache := (prediction_cache s)(market_id \<mapsto> confidence)\<rparr>, rng))
           else
             (case fallback_prediction lib rng market_id features of
                (Inr confidence, rng') \<Rightarrow>
                  (confidence,
                   s\<lparr>prediction_cache := (prediction_cache s)(market_id \<mapsto> confidence)\<rparr>, rng')
              | (Inl e, rng') \<Rightarrow> (50, s, rng'))))"

text \<open>\<open>update_model\<close>: the import and the load come first; nothing is assigned before both succeed.\<close>

definition update_model :: "'r library \<Rightarrow> string \<Rightarrow> ai_state \<Rightarrow> bool \<times> ai_state" where
  "update_model lib path s =
     (case ort_load lib path of
        Inr new_session \<Rightarrow>
          (True, s\<lparr>session := Some new_session, model_path := path, model_loaded := True,
                   prediction_cache := Map.empty\<rparr>)
      | Inl e \<Rightarrow> (False, s))"

text \<open>The states the service can be in: built by \<open>__init__\<close>, then changed by its two mutating methods.\<close>

inductive reachable :: "'r library \<Rightarrow> ai_state \<Rightarrow> bool" for lib :: "'r library" where
  reach_init: "reachable lib (init_ai lib path)"
| reach_predict: "reachable lib s \<Longrightarrow> reachable lib (fst (snd (predict lib s rng market_id features)))"
| reach_update: "reachable lib s \<Longrightarrow> reachable lib (snd (update_model lib path s))"

section \<open>Oracle cache: \<open>OracleService\<close>\<close>

text \<open>\<open>d[k] = v\<close> and \<open>d.get(k)\<close> on an insertion-ordered dictionary.\<close>

fun dict_set :: "string \<Rightarrow> pyval \<Rightarrow> pydict \<Rightarrow> pydict" where
  "dict_set k v [] = [(k, v)]"
| "dict_set k v ((k', v') # d) = (if k = k' then (k, v) # d else (k', v') # dict_set k v d)"

definition dict_get :: "pydict \<Rightarrow> string \<Rightarrow> pyval option" where
  "dict_get d k = map_of d k"

text \<open>The \<open>prices\<close> dictionary built by \<open>fetch_all_prices\<close>.\<close>

record snapshot =
  forex :: pydict
  commodities :: pydict
  crypto :: pydict
  timestamp :: string

text \<open>The configured assets, \<open>self.oracles\<close>: category, then symbol and endpoint.\<close>

definition oracles :: "(string \<times> (string \<times> string) list) list" where
  "oracles =
     [(''forex'', [(''USD_EUR'', ''https://api.qie.digital/oracle/forex/usd-eur''),
                   (''JPY_GBP'', ''https://api.qie.digital/oracle/forex/jpy-gbp'')]),
      (''commodities'', [(''GOLD'', ''https://api.qie.digital/oracle/commodities/gold''),
                         (''OIL'', ''https://api.qie.digital/oracle/commodities/oil'')]),
      (''crypto'', [(''BTC'', ''https://api.qie.digital/oracle/crypto/btc''),
                    (''ETH'', ''https://api.qie.digital/oracle/crypto/eth''),
                    (''SOL'', ''https://api.qie.digital/oracle/crypto/sol'')])]"

definition category :: "snapshot \<Rightarrow> string \<Rightarrow> pydict option" where
  "category p c =
     (if c = ''forex'' then Some (forex p)
      else if c = ''commodities'' then Some (commodities p)
      else if c = ''crypto'' then Some (crypto p)
      else None)"

record oracle_state =
  cache :: "snapshot option"
  cache_ttl :: int
  last_update :: "string option"
  use_fallback :: bool

text \<open>
  The network, taken as a parameter: \<open>requests.get(url, params, timeout=5)\<close> followed
  by \<open>response.json()\<close> gives the decoded document or raises.
\<close>

type_synonym network = "string \<Rightarrow> (string \<times> string) list \<Rightarrow> py_error + pyval"

text \<open>\<open>_get_mock_price\<close>.\<close>

definition mock_prices :: "(string \<times> pyfloat) list" where
  "mock_prices =
     [(''USD_EUR'', Fin 0.92), (''JPY_GBP'', Fin 0.0056), (''GOLD'', Fin 2045.30),
      (''OIL'', Fin 73.50), (''bitcoin'', Fin 43250.00), (''ethereum'', Fin 2280.50),
      (''solana'', Fin 98.75)]"

definition get_mock_price :: "string \<Rightarrow> pyval" where
  "get_mock_price asset =
     (case map_of mock_prices asset of Some p \<Rightarrow> PFloat p | None \<Rightarrow> PFloat (Fin 100))"

text \<open>\<open>d[k]\<close> and \<open>d.get(k, default)\<close> on a decoded value, which need not be a dictionary.\<close>

fun py_getitem :: "pyval \<Rightarrow> string \<Rightarrow> py_error + pyval" where
  "py_getitem (PDict d) k = (case map_of d k of Some v \<Rightarrow> Inr v | None \<Rightarrow> Inl KeyError)"
| "py_getitem _ k = Inl TypeError"

fun py_get :: "pyval \<Rightarrow> string \<Rightarrow> pyval \<Rightarrow> py_error + pyval" where
  "py_get (PDict d) k dflt = (case map_of d k of Some v \<Rightarrow> Inr v | None \<Rightarrow> Inr dflt)"
| "py_get _ k dflt = Inl AttributeError"

text \<open>The \<open>try\<close> block of \<open>_fetch_forex_price\<close>, and the method with its handler.\<close>

definition forex_request :: "network \<Rightarrow> string \<Rightarrow> string \<Rightarrow> py_error + pyval" where
  "forex_request net base quote =
     bind_err (net (''https://api.exchangerate-api.com/v4/latest/'' @ base) [])
       (\<lambda>data. bind_err (py_getitem data ''rates'')
          (\<lambda>rates. py_get rates quote (PFloat (Fin 0))))"

definition fetch_forex_price ::
  "oracle_state \<Rightarrow> network \<Rightarrow> string \<Rightarrow> string \<Rightarrow> py_error + pyval" where
  "fetch_forex_price s net base quote =
     (if use_fallback s then
        (case forex_request net base quote of
           Inr v \<Rightarrow> Inr v
         | Inl e \<Rightarrow> Inr (get_mock_price (base @ ''_'' @ quote)))
      else Inr (get_mock_price (base @ ''_'' @ quote)))"

definition fetch_commodity_price :: "oracle_state \<Rightarrow> string \<Rightarrow> py_error + pyval" where
  "fetch_commodity_price s commodity =
     (if use_fallback s then
        (case map_of [(''GOLD'', Fin 2045.30), (''OIL'', Fin 73.50)] commodity of
           Some p \<Rightarrow> Inr (PFloat p)
         | None \<Rightarrow> Inr (PFloat (Fin 0)))
      else Inr (get_mock_price commodity))"

definition crypto_request :: "network \<Rightarrow> string \<Rightarrow> py_error + pyval" where
  "crypto_request net crypto_id =
     bind_err (net ''https://api.coingecko.com/api/v3/simple/price''
                 [(''ids'', crypto_id), (''vs_currencies'', ''usd'')])
       (\<lambda>data. bind_err (py_get data crypto_id (PDict []))
          (\<lambda>entry. py_get entry ''usd'' (PFloat (Fin 0))))"

definition fetch_crypto_price :: "oracle_state \<Rightarrow> network \<Rightarrow> string \<Rightarrow> py_error + pyval" where
  "fetch_crypto_price s net crypto_id =
     (if use_fallback s then
        (case crypto_request net crypto_id of
           Inr v \<Rightarrow> Inr v
         | Inl e \<Rightarrow> Inr (get_mock_price crypto_id))
      else Inr (get_mock_price crypto_id))"

text \<open>
  The \<open>try\<close> block of \<open>fetch_all_prices\<close>: the seven assignments in order. An
  exception leaves the dictionary as far as it was filled (\<open>Inl\<close> carries it).
\<close>

definition set_forex :: "string \<Rightarrow> pyval \<Rightarrow> snapshot \<Rightarrow> snapshot" where
  "set_forex k v p = p\<lparr>forex := dict_set k v (forex p)\<rparr>"

definition set_commodities :: "string \<Rightarrow> pyval \<Rightarrow> snapshot \<Rightarrow> snapshot" where
  "set_commodities k v p = p\<lparr>commodities := dict_set k v (commodities p)\<rparr>"

definition set_crypto :: "string \<Rightarrow> pyval \<Rightarrow> snapshot \<Rightarrow> snapshot" where
  "set_crypto k v p = p\<lparr>crypto := dict_set k v (crypto p)\<rparr>"

definition store ::
  "snapshot \<Rightarrow> py_error + pyval \<Rightarrow> (pyval \<Rightarrow> snapshot \<Rightarrow> snapshot) \<Rightarrow> snapshot + snapshot" where
  "store p r assign = (case r of Inl e \<Rightarrow> Inl p | Inr v \<Rightarrow> Inr (assign v p))"

definition and_then ::
  "snapshot + snapshot \<Rightarrow> (snapshot \<Rightarrow> snapshot + snapshot) \<Rightarrow> snapshot + snapshot" where
  "and_then r f = (case r of Inl p \<Rightarrow> Inl p | Inr p \<Rightarrow> f p)"

definition fetch_into ::
  "oracle_state \<Rightarrow> network \<Rightarrow> snapshot \<Rightarrow> snapshot + snapshot" where
  "fetch_into s net p0 =
     and_then (store p0 (fetch_forex_price s net ''USD'' ''EUR'') (set_forex ''USD_EUR'')) (\<lambda>p1.
     and_then (store p1 (fetch_forex_price s net ''JPY'' ''GBP'') (set_forex ''JPY_GBP'')) (\<lambda>p2.
     and_then (store p2 (fetch_commodity_price s ''GOLD'') (set_commodities ''GOLD'')) (\<lambda>p3.
     and_then (store p3 (fetch_commodity_price s ''OIL'') (set_commodities ''OIL'')) (\<lambda>p4.
     and_then (store p4 (fetch_crypto_price s net ''bitcoin'') (set_crypto ''BTC'')) (\<lambda>p5.
     and_then (store p5 (fetch_crypto_price s net ''ethereum'') (set_crypto ''ETH'')) (\<lambda>p6.
     store p6 (fetch_crypto_price s net ''solana'') (set_crypto ''SOL'')))))))"

text \<open>
  \<open>fetch_all_prices\<close>, with the clock read passed in as \<open>now\<close>. On success the
  snapshot replaces the cache; in the handler a non-empty cache is returned, and
  otherwise the partly filled dictionary.
\<close>

definition fetch_all_prices ::
  "network \<Rightarrow> string \<Rightarrow> oracle_state \<Rightarrow> snapshot \<times> oracle_state" where
  "fetch_all_prices net now s =
     (let prices = \<lparr>forex = [], commodities = [], crypto = [], timestamp = now\<rparr>
      in case fetch_into s net prices of
           Inr p \<Rightarrow> (p, s\<lparr>cache := Some p, last_update := Some now\<rparr>)
         | Inl partial \<Rightarrow>
             (case cache s of Some c \<Rightarrow> (c, s) | None \<Rightarrow> (partial, s)))"

section \<open>Auxiliary definitions\<close>

text \<open>The seven-element window \<open>(oracle_values + [0.0] * 7)[:7]\<close>.\<close>

definition window :: "pyfloat list \<Rightarrow> pyfloat list" where
  "window vals = take 7 (vals @ replicate 7 (Fin 0))"

text \<open>Every cached confidence is a percentage.\<close>

definition cache_ok :: "ai_state \<Rightarrow> bool" where
  "cache_ok s \<longleftrightarrow> (\<forall>m c. prediction_cache s m = Some c \<longrightarrow> 0 \<le> c \<and> c \<le> 100)"

text \<open>A snapshot holds every configured asset.\<close>

definition complete :: "snapshot \<Rightarrow> bool" where
  "complete p \<longleftrightarrow>
     (\<forall>(c, assets) \<in> set oracles. \<forall>(k, url) \<in> set assets.
        \<exists>d v. category p c = Some d \<and> dict_get d k = Some v)"


text \<open>Sample environments on which the theorems below are instantiated.\<close>

definition sample_session :: session where
  "sample_session features = Inr (Fin (65 / 128))"

definition sample_library :: "nat library" where
  "sample_library =
     \<lparr>md5_digest = (\<lambda>s. of_nat (length s)),
      np_seed = (\<lambda>n. n),
      np_normal = (\<lambda>r loc scale. (loc + scale * (3 / 10), Suc r)),
      np_uniform = (\<lambda>r lo hi. (lo + (hi - lo) * (1 / 2), Suc r)),
      ort_load = (\<lambda>p. if p = ''./ml/model.onnx'' then Inr sample_session else Inl LoadError),
      path_exists = (\<lambda>p. p = ''./ml/model.onnx'')\<rparr>"

definition sample_state :: ai_state where
  "sample_state = init_ai sample_library ''./ml/model.onnx''"

definition fallback_state :: ai_state where
  "fallback_state = init_ai sample_library ''missing.onnx''"


definition offline :: network where
  "offline url params = Inl RequestError"

definition init_oracle :: oracle_state where
  "init_oracle = \<lparr>cache = None, cache_ttl = 60, last_update = None, use_fallback = True\<rparr>"

text \<open>Bounds used to describe the snapshots on which no float operation overflows.\<close>

fun mag_le :: "real \<Rightarrow> pyfloat \<Rightarrow> bool" where
  "mag_le B (Fin a) = (\<bar>a\<bar> \<le> B)"
| "mag_le B _ = True"

fun bounded_value :: "pyval \<Rightarrow> bool" where
  "bounded_value (PInt n) = (\<bar>n\<bar> \<le> 10 ^ 150)"
| "bounded_value (PFloat f) = mag_le (10 ^ 150) f"
| "bounded_value _ = True"

definition bounded_snapshot :: "(string \<rightharpoonup> pydict) \<Rightarrow> bool" where
  "bounded_snapshot oracle_prices \<longleftrightarrow>
     (\<forall>c \<in> set [''forex'', ''commodities'', ''crypto''].
        \<forall>(k, v) \<in> set (get_category oracle_prices c). bounded_value v)"

definition nonneg :: "pyfloat \<Rightarrow> bool" where
  "nonneg x = (case x of Fin a \<Rightarrow> 0 \<le> a | NInf \<Rightarrow> False | _ \<Rightarrow> True)"

text \<open>Sample snapshots: the example of the specification, and ones with 1, 7 and an oversized value.\<close>

definition example_snapshot :: "string \<rightharpoonup> pydict" where
  "example_snapshot =
     [''crypto'' \<mapsto> [(''BTC'', PFloat (Fin 43250)), (''ETH'', PFloat (Fin (22805 / 10))),
                      (''SOL'', PFloat (Fin (9875 / 100)))],
      ''forex'' \<mapsto> [(''USD_EUR'', PFloat (Fin (92 / 100)))],
      ''commodities'' \<mapsto> []]"

definition single_snapshot :: "string \<rightharpoonup> pydict" where
  "single_snapshot = [''forex'' \<mapsto> [(''USD_EUR'', PFloat (Fin (92 / 100)))]]"

definition seven_snapshot :: "string \<rightharpoonup> pydict" where
  "seven_snapshot =
     [''forex'' \<mapsto> [(''USD_EUR'', PFloat (Fin 1)), (''JPY_GBP'', PFloat (Fin 2))],
      ''commodities'' \<mapsto> [(''GOLD'', PFloat (Fin 3)), (''OIL'', PFloat (Fin 4))],
      ''crypto'' \<mapsto> [(''BTC'', PFloat (Fin 5)), (''ETH'', PFloat (Fin 6)), (''SOL'', PInt 7)]]"

definition huge_snapshot :: "string \<rightharpoonup> pydict" where
  "huge_snapshot = [''crypto'' \<mapsto> [(''BTC'', PFloat (Fin (10 ^ 200)))]]"

section \<open>Basic facts\<close>

lemma bind_err_Inr [simp]: "bind_err m f = Inr y \<longleftrightarrow> (\<exists>x. m = Inr x \<and> f x = Inr y)"
  by (cases m) (simp_all add: bind_err_def)

lemma bind_err_Inl [simp]:
  "bind_err m f = Inl e \<longleftrightarrow> m = Inl e \<or> (\<exists>x. m = Inr x \<and> f x = Inl e)"
  by (cases m) (simp_all add: bind_err_def)

lemma map_err_Inr: "map_err f xs = Inr ys \<longleftrightarrow> list_all2 (\<lambda>x y. f x = Inr y) xs ys"
  by (induction xs arbitrary: ys) (auto simp: list_all2_Cons1)

lemma map_err_length: "map_err f xs = Inr ys \<Longrightarrow> length ys = length xs"
  by (simp add: map_err_Inr list_all2_lengthD)

lemma map_err_Inl: "map_err f xs = Inl e \<Longrightarrow> \<exists>x \<in> set xs. f x = Inl e"
  by (induction xs) auto

lemma map_err_total: "\<forall>x \<in> set xs. \<exists>y. f x = Inr y \<Longrightarrow> \<exists>ys. map_err f xs = Inr ys"
proof (induction xs)
  case Nil
  show ?case by simp
next
  case (Cons a xs)
  then obtain y ys where "f a = Inr y" "map_err f xs = Inr ys" by auto
  then show ?case by simp
qed

lemma small_no_overflow: "\<bar>r\<bar> \<le> 10 ^ 300 \<Longrightarrow> \<not> dbl_overflow r"
  unfolding dbl_overflow_def by simp

section \<open>The confidence predictor\<close>

lemma run_onnx_range: "0 \<le> run_onnx_inference s fs \<and> run_onnx_inference s fs \<le> 100"
  by (auto simp: run_onnx_inference_def bind_err_def split: sum.splits option.splits)

lemma fallback_range:
  "fallback_prediction lib rng m f = (Inr c, rng') \<Longrightarrow> 5 \<le> c \<and> c \<le> 95"
  by (auto simp: fallback_prediction_def bind_err_def Let_def
           split: sum.splits option.splits list.splits prod.splits)

lemma fallback_result_seed:
  "market_seed lib m1 = market_seed lib m2 \<Longrightarrow>
     fst (fallback_prediction lib rng1 m1 f) = fst (fallback_prediction lib rng2 m2 f)"
  by (simp add: fallback_prediction_def Let_def split: option.splits list.splits prod.splits)

lemma predict_range:
  assumes "cache_ok s" and "predict lib s rng m f = (c, s', rng')"
  shows "0 \<le> c \<and> c \<le> 100 \<and> cache_ok s'"
proof (cases "prediction_cache s m")
  case (Some c0)
  with assms show ?thesis by (auto simp: predict_def cache_ok_def)
next
  case None
  show ?thesis
  proof (cases "model_loaded s \<and> session s \<noteq> None \<and> truthy f")
    case True
    with None assms run_onnx_range[of s "the f"] show ?thesis
      by (auto simp: predict_def cache_ok_def Let_def split: if_splits)
  next
    case False
    obtain r rng2 where fb: "fallback_prediction lib rng m f = (r, rng2)"
      by (cases "fallback_prediction lib rng m f")
    show ?thesis
    proof (cases r)
      case (Inl e)
      with False None assms fb show ?thesis by (auto simp: predict_def)
    next
      case (Inr c1)
      with fb fallback_range[of lib rng m f c1 rng2] have "5 \<le> c1 \<and> c1 \<le> 95" by simp
      with Inr False None assms fb show ?thesis
        by (auto simp: predict_def cache_ok_def split: if_splits)
    qed
  qed
qed

lemma reachable_cache_ok: "reachable lib s \<Longrightarrow> cache_ok s"
proof (induction rule: reachable.induct)
  case (reach_init path)
  show ?case by (simp add: init_ai_def cache_ok_def split: sum.splits)
next
  case (reach_predict s rng market_id features)
  then show ?case
    using predict_range[of s lib rng market_id features]
    by (metis prod.collapse)
next
  case (reach_update s path)
  then show ?case by (auto simp: update_model_def cache_ok_def split: sum.splits)
qed

lemma fallback_state_simps:
  "prediction_cache fallback_state = Map.empty" "model_loaded fallback_state = False"
  "session fallback_state = None"
  by (simp_all add: fallback_state_def init_ai_def sample_library_def)

lemma sample_fallback: "fallback_prediction sample_library 0 7 None = (Inr 60, Suc 0)"
  by (simp add: fallback_prediction_def market_seed_def sample_library_def str_int_def
        bind_err_def Let_def)

lemma sample_predict:
  "predict sample_library fallback_state 0 7 None =
     (60, fallback_state\<lparr>prediction_cache := [7 \<mapsto> 60]\<rparr>, Suc 0)"
  by (simp add: predict_def fallback_state_simps sample_fallback)

text \<open>
  C2. The fallback backend is deterministic: its result (a confidence, or the exception
  it raises) is a function of the seed hashed from the market id and of the feature
  vector alone. The state of the global generator it is entered with, which is all that
  a different call or a different process run can change, has no influence.
\<close>

theorem fallback_deterministic:
  "market_seed lib m1 = market_seed lib m2 \<longrightarrow>
     fst (fallback_prediction lib rng1 m1 f) = fst (fallback_prediction lib rng2 m2 f)"
  by (simp add: fallback_result_seed)

theorem fallback_deterministic_witness:
  "market_seed sample_library 1 = market_seed sample_library 2 \<and>
   fst (fallback_prediction sample_library 11 1 None) =
   fst (fallback_prediction sample_library 12 2 None)"
proof -
  have h: "market_seed sample_library 1 = market_seed sample_library 2"
    by (simp add: market_seed_def sample_library_def str_int_def)
  from h fallback_deterministic[of sample_library 1 2 11 None 12] show ?thesis by simp
qed

text \<open>
  C4. In every state the service can reach, \<open>predict\<close> returns a confidence in
  \<open>[0, 100]\<close>, for every market id and every feature vector (finite, infinite or
  NaN entries alike). A result that comes from the fallback path lies in \<open>[5, 95]\<close>:
  both what \<open>_fallback_prediction\<close> returns and what \<open>predict\<close> answers on that path,
  the neutral 50 of its exception handler included.
\<close>

theorem predict_confidence_range:
  "reachable lib s \<Longrightarrow> predict lib s rng m f = (c, s', rng') \<Longrightarrow>
     0 \<le> c \<and> c \<le> 100 \<and>
     (prediction_cache s m = None \<and> \<not> (model_loaded s \<and> session s \<noteq> None \<and> truthy f)
        \<longrightarrow> 5 \<le> c \<and> c \<le> 95) \<and>
     (\<forall>c1 r. fallback_prediction lib rng m f = (Inr c1, r) \<longrightarrow> 5 \<le> c1 \<and> c1 \<le> 95)"
proof (intro conjI)
  assume r: "reachable lib s" and p: "predict lib s rng m f = (c, s', rng')"
  from r have ok: "cache_ok s" by (rule reachable_cache_ok)
  from predict_range[OF ok p] show "0 \<le> c" and "c \<le> 100" by simp_all
  show "\<forall>c1 r. fallback_prediction lib rng m f = (Inr c1, r) \<longrightarrow> 5 \<le> c1 \<and> c1 \<le> 95"
    by (auto dest: fallback_range)
  show "prediction_cache s m = None \<and> \<not> (model_loaded s \<and> session s \<noteq> None \<and> truthy f)
        \<longrightarrow> 5 \<le> c \<and> c \<le> 95"
  proof
    assume a: "prediction_cache s m = None \<and> \<not> (model_loaded s \<and> session s \<noteq> None \<and> truthy f)"
    obtain r rng2 where fb: "fallback_prediction lib rng m f = (r, rng2)"
      by (cases "fallback_prediction lib rng m f")
    show "5 \<le> c \<and> c \<le> 95"
    proof (cases r)
      case (Inl e)
      with a p fb show ?thesis by (auto simp: predict_def)
    next
      case (Inr c1)
      with fb fallback_range[of lib rng m f c1 rng2] have "5 \<le> c1 \<and> c1 \<le> 95" by simp
      with Inr a p fb show ?thesis by (auto simp: predict_def)
    qed
  qed
qed

theorem predict_confidence_range_witness:
  "reachable sample_library fallback_state \<and>
   predict sample_library fallback_state 0 7 None =
     (60, fallback_state\<lparr>prediction_cache := [7 \<mapsto> 60]\<rparr>, Suc 0) \<and>
   prediction_cache fallback_state 7 = None \<and> \<not> model_loaded fallback_state \<and>
   fallback_prediction sample_library 0 7 None = (Inr 60, Suc 0) \<and>
   (5::int) \<le> 60 \<and> (60::int) \<le> 95"
proof -
  have r: "reachable sample_library fallback_state"
    unfolding fallback_state_def by (rule reach_init)
  from predict_confidence_range[OF r sample_predict] r sample_predict sample_fallback
  show ?thesis by (simp add: fallback_state_simps)
qed

text \<open>
  C5. Two consecutive calls of \<open>predict\<close> for one market, with no \<open>update_model\<close>
  between them, return the same confidence. Repeating the call with the same arguments
  always does. A successful result (one already cached, or one a backend has computed)
  is in the per-market cache after the first call, and then any later call returns it
  whatever feature vector it is given, leaving the service state and the generator
  untouched: nothing is recomputed. The only result that is not stored is the 50 of the
  exception handler, returned when the fallback computation raises.
\<close>

theorem predict_cache_hit:
  "predict lib s rng m f = (c, s', rng') \<Longrightarrow>
     fst (predict lib s' rng2 m f) = c \<and>
     (prediction_cache s' m = Some c \<longrightarrow> predict lib s' rng2 m f2 = (c, s', rng2)) \<and>
     (prediction_cache s' m = Some c \<or>
        (c = 50 \<and> s' = s \<and> (\<exists>e. fst (fallback_prediction lib rng m f) = Inl e)))"
proof -
  assume p: "predict lib s rng m f = (c, s', rng')"
  have hit: "prediction_cache s' m = Some c \<longrightarrow> predict lib s' rng2 m f2 = (c, s', rng2)" for f2
    by (simp add: predict_def)
  have alt: "prediction_cache s' m = Some c \<or>
        (c = 50 \<and> s' = s \<and> (\<exists>e. fst (fallback_prediction lib rng m f) = Inl e))"
    using p by (auto simp: predict_def Let_def split: option.splits if_splits sum.splits prod.splits)
  have same: "fst (predict lib s' rng2 m f) = c"
  proof (cases "prediction_cache s' m = Some c")
    case True
    with hit[of f] show ?thesis by simp
  next
    case False
    with alt obtain e where c: "c = 50" and s: "s' = s"
      and e: "fst (fallback_prediction lib rng m f) = Inl e" by blast
    from fallback_result_seed[of lib m m rng f rng2] e
    have e2: "fst (fallback_prediction lib rng2 m f) = Inl e" by simp
    from False s p have none: "prediction_cache s m = None"
      by (auto simp: predict_def split: option.splits)
    from False p none have nox: "\<not> (model_loaded s \<and> session s \<noteq> None \<and> truthy f)"
      by (auto simp: predict_def Let_def split: if_splits)
    obtain r2 where "fallback_prediction lib rng2 m f = (Inl e, r2)"
      using e2 by (cases "fallback_prediction lib rng2 m f") auto
    with none nox c s show ?thesis by (auto simp: predict_def)
  qed
  from same hit alt show ?thesis by blast
qed

theorem predict_cache_hit_witness:
  "predict sample_library fallback_state 0 7 None =
     (60, fallback_state\<lparr>prediction_cache := [7 \<mapsto> 60]\<rparr>, Suc 0) \<and>
   prediction_cache (fallback_state\<lparr>prediction_cache := [7 \<mapsto> 60]\<rparr>) 7 = Some 60 \<and>
   predict sample_library (fallback_state\<lparr>prediction_cache := [7 \<mapsto> 60]\<rparr>) 5 7 (Some [NaN]) =
     (60, fallback_state\<lparr>prediction_cache := [7 \<mapsto> 60]\<rparr>, 5)"
  using predict_cache_hit[OF sample_predict, of 5 "Some [NaN]"] sample_predict by simp

text \<open>
  C6. \<open>update_model\<close> is atomic. If loading fails it returns \<open>False\<close> and the state is
  the one it was called in (session, path, loaded flag and prediction cache), so every
  later \<open>predict\<close> behaves as before. If loading succeeds it returns \<open>True\<close>, the new
  session is the active one, the path is recorded, the flag is set and the prediction
  cache is empty.
\<close>

theorem update_model_atomic:
  "(ort_load lib path = Inl e \<longrightarrow>
      update_model lib path s = (False, s) \<and>
      predict lib (snd (update_model lib path s)) rng m f = predict lib s rng m f) \<and>
   (ort_load lib path = Inr new_session \<longrightarrow>
      fst (update_model lib path s) = True \<and>
      session (snd (update_model lib path s)) = Some new_session \<and>
      model_path (snd (update_model lib path s)) = path \<and>
      model_loaded (snd (update_model lib path s)) \<and>
      prediction_cache (snd (update_model lib path s)) = Map.empty)"
  by (simp add: update_model_def)

theorem update_model_atomic_witness:
  "ort_load sample_library ''bad/path'' = Inl LoadError \<and>
   update_model sample_library ''bad/path'' sample_state = (False, sample_state) \<and>
   ort_load sample_library ''./ml/model.onnx'' = Inr sample_session \<and>
   prediction_cache (snd (update_model sample_library ''./ml/model.onnx'' fallback_state)) = Map.empty \<and>
   session (snd (update_model sample_library ''./ml/model.onnx'' fallback_state)) = Some sample_session"
proof -
  have bad: "ort_load sample_library ''bad/path'' = Inl LoadError"
    by (simp add: sample_library_def)
  have good: "ort_load sample_library ''./ml/model.onnx'' = Inr sample_session"
    by (simp add: sample_library_def)
  from bad good
    update_model_atomic[of sample_library "''bad/path''" LoadError sample_state 0 0 None sample_session]
    update_model_atomic[of sample_library "''./ml/model.onnx''" LoadError fallback_state 0 0 None sample_session]
  show ?thesis by simp
qed




section \<open>The oracle cache\<close>

lemma fetch_forex_total: "\<exists>v. fetch_forex_price s net b q = Inr v"
  by (simp add: fetch_forex_price_def split: sum.splits)

lemma fetch_crypto_total: "\<exists>v. fetch_crypto_price s net c = Inr v"
  by (simp add: fetch_crypto_price_def split: sum.splits)

lemma fetch_commodity_total: "\<exists>v. fetch_commodity_price s c = Inr v"
  by (simp add: fetch_commodity_price_def split: option.splits)

text \<open>No fetch method raises, so the handler of \<open>fetch_all_prices\<close> is never entered.\<close>

lemma fetch_into_eq:
  "fetch_into s net p0 =
     Inr (set_crypto ''SOL'' (projr (fetch_crypto_price s net ''solana''))
         (set_crypto ''ETH'' (projr (fetch_crypto_price s net ''ethereum''))
         (set_crypto ''BTC'' (projr (fetch_crypto_price s net ''bitcoin''))
         (set_commodities ''OIL'' (projr (fetch_commodity_price s ''OIL''))
         (set_commodities ''GOLD'' (projr (fetch_commodity_price s ''GOLD''))
         (set_forex ''JPY_GBP'' (projr (fetch_forex_price s net ''JPY'' ''GBP''))
         (set_forex ''USD_EUR'' (projr (fetch_forex_price s net ''USD'' ''EUR'')) p0)))))))"
proof -
  obtain v1 where v1: "fetch_forex_price s net ''USD'' ''EUR'' = Inr v1" using fetch_forex_total by blast
  obtain v2 where v2: "fetch_forex_price s net ''JPY'' ''GBP'' = Inr v2" using fetch_forex_total by blast
  obtain v3 where v3: "fetch_commodity_price s ''GOLD'' = Inr v3" using fetch_commodity_total by blast
  obtain v4 where v4: "fetch_commodity_price s ''OIL'' = Inr v4" using fetch_commodity_total by blast
  obtain v5 where v5: "fetch_crypto_price s net ''bitcoin'' = Inr v5" using fetch_crypto_total by blast
  obtain v6 where v6: "fetch_crypto_price s net ''ethereum'' = Inr v6" using fetch_crypto_total by blast
  obtain v7 where v7: "fetch_crypto_price s net ''solana'' = Inr v7" using fetch_crypto_total by blast
  show ?thesis
    by (simp add: fetch_into_def and_then_def store_def v1 v2 v3 v4 v5 v6 v7)
qed

lemma fetch_all_prices_result:
  "fetch_all_prices net now s =
     (\<lparr>forex = [(''USD_EUR'', projr (fetch_forex_price s net ''USD'' ''EUR'')),
                (''JPY_GBP'', projr (fetch_forex_price s net ''JPY'' ''GBP''))],
       commodities = [(''GOLD'', projr (fetch_commodity_price s ''GOLD'')),
                      (''OIL'', projr (fetch_commodity_price s ''OIL''))],
       crypto = [(''BTC'', projr (fetch_crypto_price s net ''bitcoin'')),
                 (''ETH'', projr (fetch_crypto_price s net ''ethereum'')),
                 (''SOL'', projr (fetch_crypto_price s net ''solana''))],
       timestamp = now\<rparr>,
      s\<lparr>cache := Some (fst (fetch_all_prices net now s)), last_update := Some now\<rparr>)"
  unfolding fetch_all_prices_def Let_def fetch_into_eq
  by (simp add: set_crypto_def set_commodities_def set_forex_def)

lemma forex_failed:
  "forex_request net b q = Inl e \<Longrightarrow>
     projr (fetch_forex_price s net b q) = get_mock_price (b @ ''_'' @ q)"
  by (simp add: fetch_forex_price_def)

lemma crypto_failed:
  "crypto_request net c = Inl e \<Longrightarrow> projr (fetch_crypto_price s net c) = get_mock_price c"
  by (simp add: fetch_crypto_price_def)

lemma commodity_default:
  "c = ''GOLD'' \<or> c = ''OIL'' \<Longrightarrow> projr (fetch_commodity_price s c) = get_mock_price c"
  by (auto simp: fetch_commodity_price_def get_mock_price_def mock_prices_def)

text \<open>
  C3. \<open>fetch_all_prices\<close> never raises: whatever the network does, it returns a
  snapshot, the one it has just built and stored as the new cache. That snapshot holds
  every configured asset in its category. An asset whose request failed (the transport,
  the decoding or the shape of the document raised) has its static default, the value
  of \<open>_get_mock_price\<close>; the two commodities, which are not fetched, always have theirs.
\<close>

theorem fetch_all_prices_complete:
  "fetch_all_prices net now s = (p, s') \<Longrightarrow>
     complete p \<and> cache s' = Some p \<and>
     (\<forall>e. forex_request net ''USD'' ''EUR'' = Inl e \<longrightarrow>
          dict_get (forex p) ''USD_EUR'' = Some (get_mock_price ''USD_EUR'')) \<and>
     (\<forall>e. forex_request net ''JPY'' ''GBP'' = Inl e \<longrightarrow>
          dict_get (forex p) ''JPY_GBP'' = Some (get_mock_price ''JPY_GBP'')) \<and>
     dict_get (commodities p) ''GOLD'' = Some (get_mock_price ''GOLD'') \<and>
     dict_get (commodities p) ''OIL'' = Some (get_mock_price ''OIL'') \<and>
     (\<forall>e. crypto_request net ''bitcoin'' = Inl e \<longrightarrow>
          dict_get (crypto p) ''BTC'' = Some (get_mock_price ''bitcoin'')) \<and>
     (\<forall>e. crypto_request net ''ethereum'' = Inl e \<longrightarrow>
          dict_get (crypto p) ''ETH'' = Some (get_mock_price ''ethereum'')) \<and>
     (\<forall>e. crypto_request net ''solana'' = Inl e \<longrightarrow>
          dict_get (crypto p) ''SOL'' = Some (get_mock_price ''solana''))"
proof -
  assume a: "fetch_all_prices net now s = (p, s')"
  note r = fetch_all_prices_result[of net now s]
  from a r have p: "p = \<lparr>forex = [(''USD_EUR'', projr (fetch_forex_price s net ''USD'' ''EUR'')),
                (''JPY_GBP'', projr (fetch_forex_price s net ''JPY'' ''GBP''))],
       commodities = [(''GOLD'', projr (fetch_commodity_price s ''GOLD'')),
                      (''OIL'', projr (fetch_commodity_price s ''OIL''))],
       crypto = [(''BTC'', projr (fetch_crypto_price s net ''bitcoin'')),
                 (''ETH'', projr (fetch_crypto_price s net ''ethereum'')),
                 (''SOL'', projr (fetch_crypto_price s net ''solana''))],
       timestamp = now\<rparr>" by simp
  from a r have s': "cache s' = Some p" by simp
  have c: "complete p"
    unfolding p by (simp add: complete_def oracles_def category_def dict_get_def)
  have f1: "forex_request net ''USD'' ''EUR'' = Inl e \<longrightarrow>
          dict_get (forex p) ''USD_EUR'' = Some (get_mock_price ''USD_EUR'')" for e
    unfolding p using forex_failed[of net "''USD''" "''EUR''" e s] by (simp add: dict_get_def)
  have f2: "forex_request net ''JPY'' ''GBP'' = Inl e \<longrightarrow>
          dict_get (forex p) ''JPY_GBP'' = Some (get_mock_price ''JPY_GBP'')" for e
    unfolding p using forex_failed[of net "''JPY''" "''GBP''" e s] by (simp add: dict_get_def)
  have g1: "dict_get (commodities p) ''GOLD'' = Some (get_mock_price ''GOLD'')"
    unfolding p by (simp add: dict_get_def commodity_default)
  have g2: "dict_get (commodities p) ''OIL'' = Some (get_mock_price ''OIL'')"
    unfolding p by (simp add: dict_get_def commodity_default)
  have c1: "crypto_request net ''bitcoin'' = Inl e \<longrightarrow>
          dict_get (crypto p) ''BTC'' = Some (get_mock_price ''bitcoin'')" for e
    unfolding p by (simp add: dict_get_def crypto_failed)
  have c2: "crypto_request net ''ethereum'' = Inl e \<longrightarrow>
          dict_get (crypto p) ''ETH'' = Some (get_mock_price ''ethereum'')" for e
    unfolding p by (simp add: dict_get_def crypto_failed)
  have c3: "crypto_request net ''solana'' = Inl e \<longrightarrow>
          dict_get (crypto p) ''SOL'' = Some (get_mock_price ''solana'')" for e
    unfolding p by (simp add: dict_get_def crypto_failed)
  from c s' f1 f2 g1 g2 c1 c2 c3 show ?thesis by blast
qed

lemma offline_requests:
  "forex_request offline b q = Inl RequestError" "crypto_request offline c = Inl RequestError"
  by (simp_all add: forex_request_def crypto_request_def offline_def bind_err_def)

theorem fetch_all_prices_complete_witness:
  "forex_request offline ''USD'' ''EUR'' = Inl RequestError \<and>
   crypto_request offline ''bitcoin'' = Inl RequestError \<and>
   complete (fst (fetch_all_prices offline ''2026-01-01T00:00:00'' init_oracle)) \<and>
   dict_get (forex (fst (fetch_all_prices offline ''2026-01-01T00:00:00'' init_oracle))) ''USD_EUR''
     = Some (PFloat (Fin (92 / 100))) \<and>
   dict_get (crypto (fst (fetch_all_prices offline ''2026-01-01T00:00:00'' init_oracle))) ''BTC''
     = Some (PFloat (Fin 43250)) \<and>
   (\<exists>d v. category (fst (fetch_all_prices offline ''2026-01-01T00:00:00'' init_oracle)) ''crypto''
             = Some d \<and> dict_get d ''SOL'' = Some v)"
proof -
  let ?r = "fetch_all_prices offline ''2026-01-01T00:00:00'' init_oracle"
  have h: "?r = (fst ?r, snd ?r)" by simp
  note t = fetch_all_prices_complete[OF h]
  have m1: "get_mock_price ''USD_EUR'' = PFloat (Fin (92 / 100))"
    by (simp add: get_mock_price_def mock_prices_def)
  have m2: "get_mock_price ''bitcoin'' = PFloat (Fin 43250)"
    by (simp add: get_mock_price_def mock_prices_def)
  from t have c: "complete (fst ?r)" by blast
  from c have sol: "\<exists>d v. category (fst ?r) ''crypto'' = Some d \<and> dict_get d ''SOL'' = Some v"
    unfolding complete_def oracles_def by simp
  from t offline_requests m1 m2 c sol show ?thesis by simp
qed

section \<open>The feature builder\<close>

lemma length_window: "length (window vals) = 7"
  by (simp add: window_def)

lemma indicators_length: "indicators v = Inr ind \<Longrightarrow> length ind = 14"
  unfolding indicators_def Let_def by auto

lemma prepare_features_window:
  "prepare_features op md =
     bind_err (collect_values op) (\<lambda>vals.
       bind_err (indicators (window vals)) (\<lambda>ind. Inr (window vals @ ind)))"
proof -
  have "bind_err (indicators w) (\<lambda>ind. Inr (take 21 (w @ ind))) =
        bind_err (indicators w) (\<lambda>ind. Inr (w @ ind))" if "length w = 7" for w
  proof (cases "indicators w")
    case (Inl e)
    then show ?thesis by (simp add: bind_err_def)
  next
    case (Inr ind)
    with that indicators_length[of w ind] show ?thesis by (simp add: bind_err_def)
  qed
  then show ?thesis
    unfolding prepare_features_def Let_def window_def[symmetric]
    by (simp only: length_window order_refl if_True)
qed

lemma prepare_features_Inr:
  "prepare_features op md = Inr fs \<longleftrightarrow>
     (\<exists>vals ind. collect_values op = Inr vals \<and>
        indicators (window vals) = Inr ind \<and> fs = window vals @ ind)"
  unfolding prepare_features_window by auto

lemma pf_pow2_error: "pf_pow2 x = Inl e \<Longrightarrow> e = OverflowError"
  by (cases x) (auto split: if_splits)

lemma pf_pow2_nonneg: "pf_pow2 x = Inr y \<Longrightarrow> nonneg y"
  by (cases x) (auto simp: nonneg_def split: if_splits)

lemma rnd_nonneg: "0 \<le> r \<Longrightarrow> nonneg (rnd r)"
  by (auto simp: rnd_def nonneg_def dbl_overflow_def)

lemma pf_add_nonneg: "nonneg a \<Longrightarrow> nonneg b \<Longrightarrow> nonneg (pf_add a b)"
  by (cases a; cases b) (auto simp: nonneg_def rnd_nonneg[unfolded nonneg_def] split: pyfloat.splits)

lemma foldl_nonneg: "nonneg acc \<Longrightarrow> \<forall>x \<in> set xs. nonneg x \<Longrightarrow> nonneg (foldl pf_add acc xs)"
  by (induction xs arbitrary: acc) (auto simp: pf_add_nonneg)

lemma py_sum_nonneg: "\<forall>x \<in> set xs. nonneg x \<Longrightarrow> nonneg (py_sum xs)"
  unfolding py_sum_def by (rule foldl_nonneg) (simp_all add: nonneg_def)

lemma pf_div_pos_nonneg: "0 < b \<Longrightarrow> nonneg a \<Longrightarrow> pf_div a (Fin b) = Inr y \<Longrightarrow> nonneg y"
proof (cases a)
  case (Fin x)
  assume "0 < b" "nonneg a" "pf_div a (Fin b) = Inr y"
  with Fin have "0 \<le> x / b" "y = rnd (x / b)" by (auto simp: nonneg_def)
  then show ?thesis by (simp add: rnd_nonneg)
qed (auto simp: nonneg_def)

lemma pf_sqrt_nonneg: "nonneg a \<Longrightarrow> pf_sqrt a = Inr (projr (pf_sqrt a))"
  by (cases a) (auto simp: nonneg_def)

lemma pf_div_ne0: "pf_ne0 b \<Longrightarrow> pf_div a b = Inr (projr (pf_div a b))"
  by (cases a; cases b) (auto simp: pf_ne0_def)

lemma py_max_nonempty: "v \<noteq> [] \<Longrightarrow> py_max v = Inr (projr (py_max v))"
  by (cases v) auto

lemma py_min_nonempty: "v \<noteq> [] \<Longrightarrow> py_min v = Inr (projr (py_min v))"
  by (cases v) auto

lemma squares_nonneg:
  assumes "map_err (\<lambda>x. pf_pow2 (g x)) v = Inr sq"
  shows "\<forall>y \<in> set sq. nonneg y"
proof -
  from assms have "list_all2 (\<lambda>x y. pf_pow2 (g x) = Inr y) v sq" by (simp add: map_err_Inr)
  then show ?thesis
    by (induction rule: list_all2_induct) (auto dest: pf_pow2_nonneg)
qed


lemma pf_sqrt_nonneg_ex: "nonneg a \<Longrightarrow> \<exists>y. pf_sqrt a = Inr y"
  by (cases a) (auto simp: nonneg_def)

lemma pf_div_ne0_ex: "pf_ne0 b \<Longrightarrow> \<exists>y. pf_div a b = Inr y"
  by (cases a; cases b) (auto simp: pf_ne0_def)

lemma indicators_seven:
  assumes len: "length v = 7"
  shows "indicators v =
     bind_err (map_err (\<lambda>x. pf_pow2 (pf_sub x (projr (pf_div (py_sum v) (Fin 7))))) v) (\<lambda>sq.
       Inr [projr (pf_div (py_sum v) (Fin 7)), pf_sub (v ! 0) (v ! 6),
            projr (pf_sqrt (projr (pf_div (py_sum sq) (Fin 7)))),
            projr (py_max v), projr (py_min v), v ! 0, v ! 6,
            Fin (of_nat (count_gt v)), Fin (of_nat (count_lt v)),
            (if pf_ne0 (v ! 6) then projr (pf_div (v ! 0) (v ! 6)) else Fin 1),
            (if pf_ne0 (projr (py_max v))
             then projr (pf_div (pf_sub (projr (py_max v)) (projr (py_min v))) (projr (py_max v)))
             else Fin 0),
            Fin 0, Fin 0, Fin 0])"
proof -
  from len obtain mx mn where mx: "py_max v = Inr mx" and mn: "py_min v = Inr mn"
    by (cases v) auto
  have i0: "py_index v 0 = Inr (v ! 0)" and i6: "py_index v (- 1) = Inr (v ! 6)"
    using len by (simp_all add: py_index_def)
  obtain m where m: "pf_div (py_sum v) (Fin 7) = Inr m" by simp
  have n: "Fin (of_nat (length v)) = Fin 7" using len by simp
  obtain ratio where ratio:
    "(if pf_ne0 (v ! 6) then pf_div (v ! 0) (v ! 6) else Inr (Fin 1)) = Inr ratio"
    using pf_div_ne0_ex[of "v ! 6" "v ! 0"] by (cases "pf_ne0 (v ! 6)") auto
  obtain range where range:
    "(if pf_ne0 mx then pf_div (pf_sub mx mn) mx else Inr (Fin 0)) = Inr range"
    using pf_div_ne0_ex[of mx "pf_sub mx mn"] by (cases "pf_ne0 mx") auto
  from ratio have ratio': "(if pf_ne0 (v ! 6) then projr (pf_div (v ! 0) (v ! 6)) else Fin 1) = ratio"
    by (auto split: if_splits)
  from range have range': "(if pf_ne0 mx then projr (pf_div (pf_sub mx mn) mx) else Fin 0) = range"
    by (auto split: if_splits)
  show ?thesis
  proof (cases "map_err (\<lambda>x. pf_pow2 (pf_sub x m)) v")
    case (Inl e)
    then show ?thesis
      unfolding indicators_def Let_def n m i0 i6
      by (simp add: bind_err_def)
  next
    case (Inr sq)
    from squares_nonneg[OF Inr] have "nonneg (py_sum sq)" by (rule py_sum_nonneg)
    moreover obtain var where var: "pf_div (py_sum sq) (Fin 7) = Inr var" by simp
    ultimately have "nonneg var"
      using pf_div_pos_nonneg[of 7 "py_sum sq" var] by simp
    then obtain vol where vol: "pf_sqrt var = Inr vol"
      using pf_sqrt_nonneg_ex by blast
    show ?thesis
      unfolding indicators_def Let_def n m i0 i6 mx mn
      by (simp only: bind_err_def sum.case sum.sel Inr var vol ratio range ratio' range')
  qed
qed


lemma no_overflow_below: "\<bar>r\<bar> \<le> 10 ^ 307 \<Longrightarrow> \<not> dbl_overflow r"
  unfolding dbl_overflow_def by simp

lemma py_float_error: "py_float v = Inl e \<Longrightarrow> is_number v \<Longrightarrow> e = OverflowError"
  by (cases v) (auto split: if_splits)

lemma category_values_error: "category_values d = Inl e \<Longrightarrow> e = OverflowError"
  unfolding category_values_def by (auto dest!: map_err_Inl py_float_error)

lemma collect_values_error: "collect_values op = Inl e \<Longrightarrow> e = OverflowError"
  unfolding collect_values_def by (auto dest!: map_err_Inl category_values_error)

lemma indicators_error: "length v = 7 \<Longrightarrow> indicators v = Inl e \<Longrightarrow> e = OverflowError"
  by (auto simp: indicators_seven dest!: map_err_Inl pf_pow2_error)

lemma prepare_features_error: "prepare_features op md = Inl e \<Longrightarrow> e = OverflowError"
  unfolding prepare_features_window
  by (auto dest: collect_values_error indicators_error[OF length_window])

lemma mag_le_add: "mag_le B a \<Longrightarrow> mag_le C b \<Longrightarrow> mag_le (B + C) (pf_add a b)"
  by (cases a; cases b) (auto simp: rnd_def)

lemma mag_le_neg: "mag_le B a \<Longrightarrow> mag_le B (pf_neg a)"
  by (cases a) auto

lemma mag_le_sub: "mag_le B a \<Longrightarrow> mag_le C b \<Longrightarrow> mag_le (B + C) (pf_sub a b)"
  unfolding pf_sub_def by (simp add: mag_le_add mag_le_neg)

lemma mag_le_foldl:
  "mag_le B acc \<Longrightarrow> \<forall>x \<in> set xs. mag_le C x \<Longrightarrow>
     mag_le (B + of_nat (length xs) * C) (foldl pf_add acc xs)"
proof (induction xs arbitrary: B acc)
  case Nil
  then show ?case by simp
next
  case (Cons x xs)
  from Cons.prems have "mag_le (B + C) (pf_add acc x)" by (simp add: mag_le_add)
  from Cons.IH[OF this] Cons.prems show ?case by (simp add: algebra_simps)
qed

lemma mag_le_sum: "\<forall>x \<in> set xs. mag_le C x \<Longrightarrow> mag_le (of_nat (length xs) * C) (py_sum xs)"
  unfolding py_sum_def using mag_le_foldl[of 0 "Fin 0" xs C] by simp

lemma mag_le_div7: "0 \<le> C \<Longrightarrow> mag_le (7 * C) a \<Longrightarrow> pf_div a (Fin 7) = Inr m \<Longrightarrow> mag_le C m"
  by (cases a) (auto simp: rnd_def)

lemma pf_pow2_mag_le: "mag_le (2 * 10 ^ 150) a \<Longrightarrow> \<exists>y. pf_pow2 a = Inr y"
proof (cases a)
  case (Fin x)
  assume "mag_le (2 * 10 ^ 150) a"
  with Fin have b: "\<bar>x\<bar> \<le> 2 * 10 ^ 150" by simp
  then have "\<bar>x\<bar> * \<bar>x\<bar> \<le> (2 * 10 ^ 150) * (2 * 10 ^ 150)"
    by (intro mult_mono) simp_all
  then have "\<bar>x * x\<bar> \<le> 10 ^ 307" by (simp add: abs_mult)
  then show ?thesis using Fin by (simp add: no_overflow_below)
qed simp_all

lemma py_float_bounded:
  "is_number v \<Longrightarrow> bounded_value v \<Longrightarrow> \<exists>f. py_float v = Inr f \<and> mag_le (10 ^ 150) f"
proof (cases v)
  case (PInt n)
  assume "bounded_value v"
  with PInt have "\<bar>real_of_int n\<bar> \<le> 10 ^ 150"
    by (metis bounded_value.simps(1) of_int_abs of_int_le_iff of_int_numeral of_int_power)
  moreover from this have "\<bar>real_of_int n\<bar> \<le> 10 ^ 307" by simp
  ultimately show ?thesis using PInt by (simp add: no_overflow_below)
qed auto

lemma map_err_total_prop:
  "\<forall>x \<in> set xs. \<exists>y. f x = Inr y \<and> P y \<Longrightarrow> \<exists>ys. map_err f xs = Inr ys \<and> (\<forall>y \<in> set ys. P y)"
proof (induction xs)
  case Nil
  show ?case by simp
next
  case (Cons a xs)
  then obtain y ys where "f a = Inr y" "P y" "map_err f xs = Inr ys" "\<forall>y \<in> set ys. P y" by auto
  then show ?case by simp
qed

lemma category_values_bounded:
  assumes "\<forall>(k, v) \<in> set d. bounded_value v"
  shows "\<exists>vs. category_values d = Inr vs \<and> (\<forall>x \<in> set vs. mag_le (10 ^ 150) x)"
  unfolding category_values_def
proof (rule map_err_total_prop, rule ballI)
  fix v assume "v \<in> set (filter is_number (map snd d))"
  with assms have "is_number v" "bounded_value v" by auto
  then show "\<exists>y. py_float v = Inr y \<and> mag_le (10 ^ 150) y" by (rule py_float_bounded)
qed

lemma collect_values_bounded:
  assumes "bounded_snapshot op"
  shows "\<exists>vals. collect_values op = Inr vals \<and> (\<forall>x \<in> set vals. mag_le (10 ^ 150) x)"
proof -
  have "\<exists>vss. map_err (\<lambda>c. category_values (get_category op c))
                 [''forex'', ''commodities'', ''crypto''] = Inr vss \<and>
          (\<forall>vs \<in> set vss. \<forall>x \<in> set vs. mag_le (10 ^ 150) x)"
  proof (rule map_err_total_prop, rule ballI)
    fix c assume "c \<in> set [''forex'', ''commodities'', ''crypto'']"
    with assms have "\<forall>(k, v) \<in> set (get_category op c). bounded_value v"
      unfolding bounded_snapshot_def by blast
    then show "\<exists>y. category_values (get_category op c) = Inr y \<and> (\<forall>x \<in> set y. mag_le (10 ^ 150) x)"
      by (rule category_values_bounded)
  qed
  then show ?thesis unfolding collect_values_def by auto
qed

lemma window_bounded: "\<forall>x \<in> set vals. mag_le B x \<Longrightarrow> 0 \<le> B \<Longrightarrow> \<forall>x \<in> set (window vals). mag_le B x"
  unfolding window_def by (auto dest!: in_set_takeD)

lemma indicators_bounded:
  assumes len: "length v = 7" and b: "\<forall>x \<in> set v. mag_le (10 ^ 150) x"
  shows "\<exists>ind. indicators v = Inr ind"
proof -
  obtain m where m: "pf_div (py_sum v) (Fin 7) = Inr m" by simp
  from mag_le_sum[OF b] len have "mag_le (7 * 10 ^ 150) (py_sum v)" by simp
  with m have mb: "mag_le (10 ^ 150) m" using mag_le_div7[of "10 ^ 150" "py_sum v" m] by simp
  have "\<forall>x \<in> set v. \<exists>y. pf_pow2 (pf_sub x m) = Inr y"
  proof
    fix x assume "x \<in> set v"
    with b mb have "mag_le (10 ^ 150 + 10 ^ 150) (pf_sub x m)" by (intro mag_le_sub) auto
    then have "mag_le (2 * 10 ^ 150) (pf_sub x m)" by simp
    then show "\<exists>y. pf_pow2 (pf_sub x m) = Inr y" by (rule pf_pow2_mag_le)
  qed
  then have "\<exists>sq. map_err (\<lambda>x. pf_pow2 (pf_sub x m)) v = Inr sq"
    by (rule map_err_total)
  then obtain sq where sq: "map_err (\<lambda>x. pf_pow2 (pf_sub x m)) v = Inr sq" ..
  have pm: "projr (pf_div (py_sum v) (Fin 7)) = m" using m by simp
  show ?thesis
    unfolding indicators_seven[OF len] pm sq bind_err_def sum.case by blast
qed

lemma prepare_features_bounded:
  assumes "bounded_snapshot op"
  shows "\<exists>fs. prepare_features op md = Inr fs"
proof -
  from collect_values_bounded[OF assms] obtain vals where
    v: "collect_values op = Inr vals" and b: "\<forall>x \<in> set vals. mag_le (10 ^ 150) x" by blast
  from window_bounded[OF b] have "\<forall>x \<in> set (window vals). mag_le (10 ^ 150) x" by simp
  from indicators_bounded[OF length_window this] obtain ind where
    "indicators (window vals) = Inr ind" by blast
  with v show ?thesis by (simp add: prepare_features_Inr)
qed

lemma rnd_small: "\<bar>r\<bar> \<le> 10000000000000000 \<Longrightarrow> rnd r = Fin r"
proof -
  assume "\<bar>r\<bar> \<le> 10000000000000000"
  then have "\<bar>r\<bar> \<le> 10 ^ 300" by simp
  then show ?thesis by (simp add: rnd_def small_no_overflow)
qed

lemma pf_add_small: "\<bar>a + b\<bar> \<le> 10000000000000000 \<Longrightarrow> pf_add (Fin a) (Fin b) = Fin (a + b)"
  by (simp add: rnd_small)

lemma pf_sub_small: "\<bar>a - b\<bar> \<le> 10000000000000000 \<Longrightarrow> pf_sub (Fin a) (Fin b) = Fin (a - b)"
  by (simp add: pf_sub_def rnd_small)

lemma pf_div_small:
  "b \<noteq> 0 \<Longrightarrow> \<bar>a / b\<bar> \<le> 10000000000000000 \<Longrightarrow> pf_div (Fin a) (Fin b) = Inr (Fin (a / b))"
  by (simp add: rnd_small)

lemma pf_pow2_small:
  "\<bar>a * a\<bar> \<le> 10000000000000000 \<Longrightarrow> pf_pow2 (Fin a) = Inr (Fin (a * a))"
proof -
  assume "\<bar>a * a\<bar> \<le> 10000000000000000"
  then have "\<bar>a * a\<bar> \<le> 10 ^ 300" by simp
  then show ?thesis by (simp add: small_no_overflow)
qed

lemmas small_ops = pf_add_small pf_sub_small pf_div_small pf_pow2_small

lemma collect_example:
  "collect_values example_snapshot = Inr [Fin (92 / 100), Fin 43250, Fin (22805 / 10), Fin (9875 / 100)]"
  by (simp add: collect_values_def example_snapshot_def get_category_def category_values_def bind_err_def)

lemma window_example:
  "window [Fin (92 / 100), Fin 43250, Fin (22805 / 10), Fin (9875 / 100)] =
     [Fin (92 / 100), Fin 43250, Fin (22805 / 10), Fin (9875 / 100), Fin 0, Fin 0, Fin 0]"
  by (simp add: window_def numeral_eq_Suc)

lemma count_seven:
  "length v = 7 \<Longrightarrow> count_gt v = length (filter (\<lambda>i. pf_gt (v ! i) (v ! (i + 1))) [0, 1, 2, 3, 4, 5])"
  "length v = 7 \<Longrightarrow> count_lt v = length (filter (\<lambda>i. pf_lt (v ! i) (v ! (i + 1))) [0, 1, 2, 3, 4, 5])"
proof -
  have "[0 ..< 6] = [0, 1, 2, 3, 4, 5 :: nat]" by (simp add: upt_rec)
  then show "length v = 7 \<Longrightarrow> count_gt v = length (filter (\<lambda>i. pf_gt (v ! i) (v ! (i + 1))) [0, 1, 2, 3, 4, 5])"
    "length v = 7 \<Longrightarrow> count_lt v = length (filter (\<lambda>i. pf_lt (v ! i) (v ! (i + 1))) [0, 1, 2, 3, 4, 5])"
    by (simp_all add: count_gt_def count_lt_def)
qed

lemma indicators_example:
  "indicators [Fin (92 / 100), Fin 43250, Fin (22805 / 10), Fin (9875 / 100), Fin 0, Fin 0, Fin 0] =
     Inr [Fin (4563017 / 700), Fin (92 / 100), Fin (sqrt (55241490571917 / 245000)),
          Fin 43250, Fin 0, Fin (92 / 100), Fin 0, Fin 3, Fin 1, Fin 1, Fin 1,
          Fin 0, Fin 0, Fin 0]"
proof -
  let ?w = "[Fin (92 / 100), Fin 43250, Fin (22805 / 10), Fin (9875 / 100), Fin 0, Fin 0, Fin 0]"
  have len: "length ?w = 7" by simp
  have s: "py_sum ?w = Fin (4563017 / 100)"
    by (simp add: py_sum_def small_ops del: pf_add.simps)
  have m: "projr (pf_div (py_sum ?w) (Fin 7)) = Fin (4563017 / 700)"
    by (subst s) (simp add: rnd_small)
  have sq: "map_err (\<lambda>x. pf_pow2 (pf_sub x (Fin (4563017 / 700)))) ?w =
      Inr [Fin (20815247391129 / 490000), Fin (661106069792289 / 490000),
           Fin (8801113088889 / 490000), Fin (1262191581729 / 30625),
           Fin (20821124142289 / 490000), Fin (20821124142289 / 490000),
           Fin (20821124142289 / 490000)]"
    by (simp add: bind_err_def small_ops del: pf_pow2.simps)
  have v: "projr (pf_sqrt (projr (pf_div (py_sum
           [Fin (20815247391129 / 490000), Fin (661106069792289 / 490000),
            Fin (8801113088889 / 490000), Fin (1262191581729 / 30625),
            Fin (20821124142289 / 490000), Fin (20821124142289 / 490000),
            Fin (20821124142289 / 490000)]) (Fin 7)))) = Fin (sqrt (55241490571917 / 245000))"
    by (simp add: py_sum_def small_ops rnd_small del: pf_add.simps)
  have mx: "projr (py_max ?w) = Fin 43250" by (simp add: pf_gt_def)
  have mn: "projr (py_min ?w) = Fin 0" by simp
  have cg: "count_gt ?w = 3" by (simp add: count_seven pf_gt_def)
  have cl: "count_lt ?w = 1" by (simp add: count_seven)
  show ?thesis
    unfolding indicators_seven[OF len] m sq bind_err_def sum.case v mx mn cg cl
    by (simp add: pf_ne0_def small_ops rnd_small)
qed


lemma features_example:
  "prepare_features example_snapshot md =
     Inr ([Fin (92 / 100), Fin 43250, Fin (22805 / 10), Fin (9875 / 100), Fin 0, Fin 0, Fin 0] @
          [Fin (4563017 / 700), Fin (92 / 100), Fin (sqrt (55241490571917 / 245000)),
           Fin 43250, Fin 0, Fin (92 / 100), Fin 0, Fin 3, Fin 1, Fin 1, Fin 1,
           Fin 0, Fin 0, Fin 0])"
  unfolding prepare_features_window collect_example bind_err_def sum.case window_example
    indicators_example ..

lemma collect_single: "collect_values single_snapshot = Inr [Fin (92 / 100)]"
  by (simp add: collect_values_def single_snapshot_def get_category_def category_values_def bind_err_def)

lemma window_single:
  "window [Fin (92 / 100)] = [Fin (92 / 100), Fin 0, Fin 0, Fin 0, Fin 0, Fin 0, Fin 0]"
  by (simp add: window_def numeral_eq_Suc)

lemma indicators_single:
  "indicators [Fin (92 / 100), Fin 0, Fin 0, Fin 0, Fin 0, Fin 0, Fin 0] =
     Inr [Fin (23 / 175), Fin (92 / 100), Fin (sqrt (3174 / 30625)),
          Fin (92 / 100), Fin 0, Fin (92 / 100), Fin 0, Fin 1, Fin 0, Fin 1, Fin 1,
          Fin 0, Fin 0, Fin 0]"
proof -
  let ?w = "[Fin (92 / 100), Fin 0, Fin 0, Fin 0, Fin 0, Fin 0, Fin 0]"
  have len: "length ?w = 7" by simp
  have s: "py_sum ?w = Fin (92 / 100)"
    by (simp add: py_sum_def small_ops del: pf_add.simps)
  have m: "projr (pf_div (py_sum ?w) (Fin 7)) = Fin (23 / 175)"
    by (subst s) (simp add: rnd_small)
  have sq: "map_err (\<lambda>x. pf_pow2 (pf_sub x (Fin (23 / 175)))) ?w =
      Inr [Fin (19044 / 30625), Fin (529 / 30625), Fin (529 / 30625), Fin (529 / 30625),
           Fin (529 / 30625), Fin (529 / 30625), Fin (529 / 30625)]"
    by (simp add: bind_err_def small_ops del: pf_pow2.simps)
  have v: "projr (pf_sqrt (projr (pf_div (py_sum
           [Fin (19044 / 30625), Fin (529 / 30625), Fin (529 / 30625), Fin (529 / 30625),
            Fin (529 / 30625), Fin (529 / 30625), Fin (529 / 30625)]) (Fin 7)))) =
           Fin (sqrt (3174 / 30625))"
    by (simp add: py_sum_def small_ops rnd_small del: pf_add.simps)
  have mx: "projr (py_max ?w) = Fin (92 / 100)" by (simp add: pf_gt_def)
  have mn: "projr (py_min ?w) = Fin 0" by simp
  have cg: "count_gt ?w = 1" by (simp add: count_seven pf_gt_def)
  have cl: "count_lt ?w = 0" by (simp add: count_seven)
  show ?thesis
    unfolding indicators_seven[OF len] m sq bind_err_def sum.case v mx mn cg cl
    by (simp add: pf_ne0_def small_ops rnd_small)
qed

lemma features_single:
  "prepare_features single_snapshot md =
     Inr [Fin (92 / 100), Fin 0, Fin 0, Fin 0, Fin 0, Fin 0, Fin 0,
          Fin (23 / 175), Fin (92 / 100), Fin (sqrt (3174 / 30625)),
          Fin (92 / 100), Fin 0, Fin (92 / 100), Fin 0, Fin 1, Fin 0, Fin 1, Fin 1,
          Fin 0, Fin 0, Fin 0]"
  unfolding prepare_features_window collect_single bind_err_def sum.case window_single
    indicators_single by simp

lemma collect_empty: "collect_values Map.empty = Inr []"
  by (simp add: collect_values_def get_category_def category_values_def bind_err_def)

lemma window_empty: "window [] = [Fin 0, Fin 0, Fin 0, Fin 0, Fin 0, Fin 0, Fin 0]"
  by (simp add: window_def numeral_eq_Suc)

lemma indicators_zero:
  "indicators [Fin 0, Fin 0, Fin 0, Fin 0, Fin 0, Fin 0, Fin 0] =
     Inr [Fin 0, Fin 0, Fin 0, Fin 0, Fin 0, Fin 0, Fin 0, Fin 0, Fin 0, Fin 1, Fin 0,
          Fin 0, Fin 0, Fin 0]"
proof -
  let ?w = "[Fin 0, Fin 0, Fin 0, Fin 0, Fin 0, Fin 0, Fin 0]"
  have len: "length ?w = 7" by simp
  have s: "py_sum ?w = Fin 0"
    by (simp add: py_sum_def small_ops del: pf_add.simps)
  have m: "projr (pf_div (py_sum ?w) (Fin 7)) = Fin 0"
    by (subst s) (simp add: rnd_small)
  have sq: "map_err (\<lambda>x. pf_pow2 (pf_sub x (Fin 0))) ?w = Inr ?w"
    by (simp add: bind_err_def small_ops del: pf_pow2.simps)
  have v: "projr (pf_sqrt (projr (pf_div (py_sum ?w) (Fin 7)))) = Fin 0"
    by (subst s) (simp add: rnd_small)
  have mx: "projr (py_max ?w) = Fin 0" by (simp add: pf_gt_def)
  have mn: "projr (py_min ?w) = Fin 0" by simp
  have cg: "count_gt ?w = 0" by (simp add: count_seven pf_gt_def)
  have cl: "count_lt ?w = 0" by (simp add: count_seven)
  show ?thesis
    unfolding indicators_seven[OF len] m sq bind_err_def sum.case v mx mn cg cl
    by (simp add: pf_ne0_def small_ops rnd_small)
qed

lemma features_empty:
  "prepare_features Map.empty md =
     Inr [Fin 0, Fin 0, Fin 0, Fin 0, Fin 0, Fin 0, Fin 0,
          Fin 0, Fin 0, Fin 0, Fin 0, Fin 0, Fin 0, Fin 0, Fin 0, Fin 0, Fin 1, Fin 0,
          Fin 0, Fin 0, Fin 0]"
  unfolding prepare_features_window collect_empty bind_err_def sum.case window_empty
    indicators_zero by simp

lemma large_overflow: "10 ^ 309 \<le> \<bar>r\<bar> \<Longrightarrow> dbl_overflow r"
  unfolding dbl_overflow_def by simp

lemma rnd_medium: "\<bar>r\<bar> \<le> 10 ^ 300 \<Longrightarrow> rnd r = Fin r"
  by (simp add: rnd_def small_no_overflow)

lemma collect_huge: "collect_values huge_snapshot = Inr [Fin (10 ^ 200)]"
  by (simp add: collect_values_def huge_snapshot_def get_category_def category_values_def bind_err_def)

lemma window_huge:
  "window [Fin (10 ^ 200)] = [Fin (10 ^ 200), Fin 0, Fin 0, Fin 0, Fin 0, Fin 0, Fin 0]"
  by (simp add: window_def numeral_eq_Suc)

lemma indicators_huge:
  "indicators [Fin (10 ^ 200), Fin 0, Fin 0, Fin 0, Fin 0, Fin 0, Fin 0] = Inl OverflowError"
proof -
  let ?w = "[Fin (10 ^ 200), Fin 0, Fin 0, Fin 0, Fin 0, Fin 0, Fin 0]"
  have len: "length ?w = 7" by simp
  have s: "py_sum ?w = Fin (10 ^ 200)"
    by (simp add: py_sum_def rnd_medium)
  have m: "projr (pf_div (py_sum ?w) (Fin 7)) = Fin (10 ^ 200 / 7)"
    by (subst s) (simp add: rnd_medium)
  have d: "pf_sub (Fin (10 ^ 200)) (Fin (10 ^ 200 / 7)) = Fin (6 * 10 ^ 200 / 7)"
    by (simp add: pf_sub_def rnd_medium)
  have "(10::real) ^ 309 \<le> \<bar>6 * 10 ^ 200 / 7 * (6 * 10 ^ 200 / 7)\<bar>" by simp
  then have p: "pf_pow2 (Fin (6 * 10 ^ 200 / 7)) = Inl OverflowError"
    by (simp add: large_overflow)
  have sq: "map_err (\<lambda>x. pf_pow2 (pf_sub x (Fin (10 ^ 200 / 7)))) ?w = Inl OverflowError"
    by (simp only: map_err.simps d p bind_err_def sum.case)
  show ?thesis
    unfolding indicators_seven[OF len] m sq bind_err_def sum.case ..
qed

lemma features_huge: "prepare_features huge_snapshot md = Inl OverflowError"
  unfolding prepare_features_window collect_huge bind_err_def sum.case window_huge
    indicators_huge ..

lemma indicators_guards:
  assumes len: "length w = 7" and ind: "indicators w = Inr ind"
  shows "(w ! 6 = Fin 0 \<longrightarrow> ind ! 9 = Fin 1) \<and>
         (w ! 6 \<noteq> Fin 0 \<longrightarrow> pf_div (w ! 0) (w ! 6) = Inr (ind ! 9)) \<and>
         (\<exists>mx mn. py_max w = Inr mx \<and> py_min w = Inr mn \<and>
            (mx = Fin 0 \<longrightarrow> ind ! 10 = Fin 0) \<and>
            (mx \<noteq> Fin 0 \<longrightarrow> pf_div (pf_sub mx mn) mx = Inr (ind ! 10)))"
proof -
  from len obtain mx mn where mx: "py_max w = Inr mx" and mn: "py_min w = Inr mn"
    by (cases w) auto
  from ind obtain sq where ind_eq: "ind =
      [projr (pf_div (py_sum w) (Fin 7)), pf_sub (w ! 0) (w ! 6),
       projr (pf_sqrt (projr (pf_div (py_sum sq) (Fin 7)))),
       mx, mn, w ! 0, w ! 6,
       Fin (of_nat (count_gt w)), Fin (of_nat (count_lt w)),
       (if pf_ne0 (w ! 6) then projr (pf_div (w ! 0) (w ! 6)) else Fin 1),
       (if pf_ne0 mx then projr (pf_div (pf_sub mx mn) mx) else Fin 0),
       Fin 0, Fin 0, Fin 0]"
    unfolding indicators_seven[OF len] mx mn by auto
  have i9: "ind ! 9 = (if pf_ne0 (w ! 6) then projr (pf_div (w ! 0) (w ! 6)) else Fin 1)"
    unfolding ind_eq by simp
  have i10: "ind ! 10 = (if pf_ne0 mx then projr (pf_div (pf_sub mx mn) mx) else Fin 0)"
    unfolding ind_eq by simp
  have r1: "w ! 6 = Fin 0 \<longrightarrow> ind ! 9 = Fin 1"
    unfolding i9 by (simp add: pf_ne0_def)
  have r2: "w ! 6 \<noteq> Fin 0 \<longrightarrow> pf_div (w ! 0) (w ! 6) = Inr (ind ! 9)"
    unfolding i9 using pf_div_ne0_ex[of "w ! 6" "w ! 0"] by (auto simp: pf_ne0_def)
  have r3: "mx = Fin 0 \<longrightarrow> ind ! 10 = Fin 0"
    unfolding i10 by (simp add: pf_ne0_def)
  have r4: "mx \<noteq> Fin 0 \<longrightarrow> pf_div (pf_sub mx mn) mx = Inr (ind ! 10)"
    unfolding i10 using pf_div_ne0_ex[of mx "pf_sub mx mn"] by (auto simp: pf_ne0_def)
  from mx mn r1 r2 r3 r4 show ?thesis by blast
qed

lemma collect_seven:
  "collect_values seven_snapshot = Inr [Fin 1, Fin 2, Fin 3, Fin 4, Fin 5, Fin 6, Fin 7]"
  by (simp add: collect_values_def seven_snapshot_def get_category_def category_values_def
        bind_err_def small_no_overflow)

lemma window_seven:
  "window [Fin 1, Fin 2, Fin 3, Fin 4, Fin 5, Fin 6, Fin 7] =
     [Fin 1, Fin 2, Fin 3, Fin 4, Fin 5, Fin 6, Fin 7]"
  by (simp add: window_def)

lemma indicators_seven_values:
  "indicators [Fin 1, Fin 2, Fin 3, Fin 4, Fin 5, Fin 6, Fin 7] =
     Inr [Fin 4, Fin (- 6), Fin 2, Fin 7, Fin 1, Fin 1, Fin 7, Fin 0, Fin 6,
          Fin (1 / 7), Fin (6 / 7), Fin 0, Fin 0, Fin 0]"
proof -
  let ?w = "[Fin 1, Fin 2, Fin 3, Fin 4, Fin 5, Fin 6, Fin 7]"
  have len: "length ?w = 7" by simp
  have s: "py_sum ?w = Fin 28"
    by (simp add: py_sum_def small_ops del: pf_add.simps)
  have m: "projr (pf_div (py_sum ?w) (Fin 7)) = Fin 4"
    by (subst s) (simp add: rnd_small)
  have sq: "map_err (\<lambda>x. pf_pow2 (pf_sub x (Fin 4))) ?w =
      Inr [Fin 9, Fin 4, Fin 1, Fin 0, Fin 1, Fin 4, Fin 9]"
    by (simp add: bind_err_def small_ops del: pf_pow2.simps)
  have v: "projr (pf_sqrt (projr (pf_div (py_sum
           [Fin 9, Fin 4, Fin 1, Fin 0, Fin 1, Fin 4, Fin 9]) (Fin 7)))) = Fin 2"
    by (simp add: py_sum_def small_ops rnd_small del: pf_add.simps)
  have mx: "projr (py_max ?w) = Fin 7" by (simp add: pf_gt_def)
  have mn: "projr (py_min ?w) = Fin 1" by simp
  have cg: "count_gt ?w = 0" by (simp add: count_seven pf_gt_def)
  have cl: "count_lt ?w = 6" by (simp add: count_seven)
  show ?thesis
    unfolding indicators_seven[OF len] m sq bind_err_def sum.case v mx mn cg cl
    by (simp add: pf_ne0_def small_ops rnd_small)
qed

lemma features_seven:
  "prepare_features seven_snapshot md =
     Inr [Fin 1, Fin 2, Fin 3, Fin 4, Fin 5, Fin 6, Fin 7,
          Fin 4, Fin (- 6), Fin 2, Fin 7, Fin 1, Fin 1, Fin 7, Fin 0, Fin 6,
          Fin (1 / 7), Fin (6 / 7), Fin 0, Fin 0, Fin 0]"
  unfolding prepare_features_window collect_seven bind_err_def sum.case window_seven
    indicators_seven_values by simp

lemma bounded_single: "bounded_snapshot single_snapshot"
  by (simp add: bounded_snapshot_def single_snapshot_def get_category_def)

lemma features_split:
  assumes "prepare_features op md = Inr fs"
  shows "length (take 7 fs) = 7 \<and> indicators (take 7 fs) = Inr (drop 7 fs) \<and>
         fs ! 16 = drop 7 fs ! 9 \<and> fs ! 17 = drop 7 fs ! 10"
proof -
  from assms obtain vals ind where i: "indicators (window vals) = Inr ind"
    and fs: "fs = window vals @ ind" by (auto simp: prepare_features_Inr)
  from indicators_length[OF i] have li: "length ind = 14" .
  have t: "take 7 fs = window vals" and d: "drop 7 fs = ind"
    unfolding fs by (simp_all add: length_window)
  have "fs ! 16 = ind ! 9" "fs ! 17 = ind ! 10"
    unfolding fs by (simp_all add: nth_append length_window)
  with t d i show ?thesis by (simp add: length_window)
qed

text \<open>
  C1, as the specification states it: for every price snapshot the feature builder
  returns exactly 21 values. For a snapshot whose only price is \<open>1e200\<close> it returns
  nothing: the squared deviation from the mean, \<open>(x - mean) ** 2\<close>, is beyond the range
  of a float and Python raises \<open>OverflowError\<close>.
\<close>

theorem prepare_features_overflow_counterexample:
  "prepare_features huge_snapshot () = Inl OverflowError \<and>
   \<not> (\<exists>fs. prepare_features huge_snapshot () = Inr fs \<and> length fs = 21)"
  by (simp add: features_huge)

text \<open>
  C1, amended: for every price snapshot and every market metadata, \<open>prepare_features\<close>
  either returns a sequence of exactly 21 values or raises \<open>OverflowError\<close>, and
  nothing else. It returns the 21 values for every snapshot whose numeric values are
  integers or finite floats of magnitude at most \<open>1e150\<close>, infinities or NaN, however
  many of them there are.
\<close>

theorem prepare_features_length:
  "(prepare_features op md = Inr fs \<longrightarrow> length fs = 21) \<and>
   (prepare_features op md = Inl e \<longrightarrow> e = OverflowError) \<and>
   (bounded_snapshot op \<longrightarrow> (\<exists>fs'. prepare_features op md = Inr fs' \<and> length fs' = 21))"
proof (intro conjI impI)
  assume "prepare_features op md = Inr fs"
  then obtain vals ind where "indicators (window vals) = Inr ind" "fs = window vals @ ind"
    by (auto simp: prepare_features_Inr)
  then show "length fs = 21" using indicators_length[of "window vals" ind]
    by (simp add: length_window)
next
  assume "prepare_features op md = Inl e"
  then show "e = OverflowError" by (rule prepare_features_error)
next
  assume "bounded_snapshot op"
  from prepare_features_bounded[OF this] obtain fs' where f: "prepare_features op md = Inr fs'" ..
  then obtain vals ind where "indicators (window vals) = Inr ind" "fs' = window vals @ ind"
    by (auto simp: prepare_features_Inr)
  then have "length fs' = 21" using indicators_length[of "window vals" ind]
    by (simp add: length_window)
  with f show "\<exists>fs'. prepare_features op md = Inr fs' \<and> length fs' = 21" by blast
qed

theorem prepare_features_length_witness:
  "bounded_snapshot single_snapshot \<and>
   (\<exists>fs. prepare_features single_snapshot () = Inr fs \<and> length fs = 21) \<and>
   prepare_features seven_snapshot () =
     Inr [Fin 1, Fin 2, Fin 3, Fin 4, Fin 5, Fin 6, Fin 7,
          Fin 4, Fin (- 6), Fin 2, Fin 7, Fin 1, Fin 1, Fin 7, Fin 0, Fin 6,
          Fin (1 / 7), Fin (6 / 7), Fin 0, Fin 0, Fin 0] \<and>
   length [Fin 1, Fin 2, Fin 3, Fin 4, Fin 5, Fin 6, Fin 7,
          Fin 4, Fin (- 6), Fin 2, Fin 7, Fin 1, Fin 1, Fin 7, Fin 0, Fin 6,
          Fin (1 / 7), Fin (6 / 7), Fin 0, Fin 0, Fin 0] = 21 \<and>
   prepare_features huge_snapshot () = Inl OverflowError \<and> OverflowError = OverflowError"
proof -
  note seven = features_seven[where md = "()"]
  note huge = features_huge[where md = "()"]
  from prepare_features_length[of single_snapshot "()" "[]" OverflowError] bounded_single
  have a: "\<exists>fs. prepare_features single_snapshot () = Inr fs \<and> length fs = 21" by blast
  from prepare_features_length[of seven_snapshot "()" _ OverflowError] seven
  have b: "length [Fin 1, Fin 2, Fin 3, Fin 4, Fin 5, Fin 6, Fin 7,
          Fin 4, Fin (- 6), Fin 2, Fin 7, Fin 1, Fin 1, Fin 7, Fin 0, Fin 6,
          Fin (1 / 7), Fin (6 / 7), Fin 0, Fin 0, Fin 0] = 21" by blast
  from prepare_features_length[of huge_snapshot "()" "[]" OverflowError] huge
  have c: "OverflowError = OverflowError" by blast
  from a b c bounded_single seven huge show ?thesis by blast
qed


text \<open>
  C8. For every 7-element window on which the indicators are computed, the ratio
  indicator (the tenth) is \<open>1.0\<close> if the last window value is zero and the quotient
  first / last otherwise; the normalized-range indicator (the eleventh) is \<open>0.0\<close> if
  the window maximum is zero and (max - min) / max otherwise. In the feature vector the
  window is the first seven entries, the indicators are the other fourteen, and the two
  guarded indicators are the entries 16 and 17.
\<close>

theorem ratio_range_guards:
  "(length w = 7 \<and> indicators w = Inr ind \<longrightarrow>
      (w ! 6 = Fin 0 \<longrightarrow> ind ! 9 = Fin 1) \<and>
      (w ! 6 \<noteq> Fin 0 \<longrightarrow> pf_div (w ! 0) (w ! 6) = Inr (ind ! 9)) \<and>
      (\<exists>mx mn. py_max w = Inr mx \<and> py_min w = Inr mn \<and>
         (mx = Fin 0 \<longrightarrow> ind ! 10 = Fin 0) \<and>
         (mx \<noteq> Fin 0 \<longrightarrow> pf_div (pf_sub mx mn) mx = Inr (ind ! 10)))) \<and>
   (prepare_features op md = Inr fs \<longrightarrow>
      length (take 7 fs) = 7 \<and> indicators (take 7 fs) = Inr (drop 7 fs) \<and>
      fs ! 16 = drop 7 fs ! 9 \<and> fs ! 17 = drop 7 fs ! 10)"
  using indicators_guards[of w ind] features_split[of op md fs] by blast

theorem ratio_range_guards_witness:
  "indicators [Fin 0, Fin 0, Fin 0, Fin 0, Fin 0, Fin 0, Fin 0] =
     Inr [Fin 0, Fin 0, Fin 0, Fin 0, Fin 0, Fin 0, Fin 0, Fin 0, Fin 0, Fin 1, Fin 0,
          Fin 0, Fin 0, Fin 0] \<and>
   py_max [Fin 0, Fin 0, Fin 0, Fin 0, Fin 0, Fin 0, Fin 0] = Inr (Fin 0) \<and>
   indicators [Fin 1, Fin 2, Fin 3, Fin 4, Fin 5, Fin 6, Fin 7] =
     Inr [Fin 4, Fin (- 6), Fin 2, Fin 7, Fin 1, Fin 1, Fin 7, Fin 0, Fin 6,
          Fin (1 / 7), Fin (6 / 7), Fin 0, Fin 0, Fin 0] \<and>
   pf_div (Fin 1) (Fin 7) = Inr (Fin (1 / 7)) \<and>
   py_max [Fin 1, Fin 2, Fin 3, Fin 4, Fin 5, Fin 6, Fin 7] = Inr (Fin 7) \<and>
   py_min [Fin 1, Fin 2, Fin 3, Fin 4, Fin 5, Fin 6, Fin 7] = Inr (Fin 1) \<and>
   pf_div (pf_sub (Fin 7) (Fin 1)) (Fin 7) = Inr (Fin (6 / 7)) \<and>
   (\<exists>fs. prepare_features seven_snapshot () = Inr fs \<and>
         fs ! 16 = Fin (1 / 7) \<and> fs ! 17 = Fin (6 / 7))"
proof -
  let ?z = "[Fin 0, Fin 0, Fin 0, Fin 0, Fin 0, Fin 0, Fin 0]"
  let ?w = "[Fin 1, Fin 2, Fin 3, Fin 4, Fin 5, Fin 6, Fin 7]"
  let ?fs = "[Fin 1, Fin 2, Fin 3, Fin 4, Fin 5, Fin 6, Fin 7,
          Fin 4, Fin (- 6), Fin 2, Fin 7, Fin 1, Fin 1, Fin 7, Fin 0, Fin 6,
          Fin (1 / 7), Fin (6 / 7), Fin 0, Fin 0, Fin 0]"
  note seven = features_seven[where md = "()"]
  have mz: "py_max ?z = Inr (Fin 0)" by (simp add: pf_gt_def)
  have mx: "py_max ?w = Inr (Fin 7)" by (simp add: pf_gt_def)
  have mn: "py_min ?w = Inr (Fin 1)" by simp
  have lz: "length ?z = 7 \<and> indicators ?z = Inr [Fin 0, Fin 0, Fin 0, Fin 0, Fin 0, Fin 0, Fin 0,
      Fin 0, Fin 0, Fin 1, Fin 0, Fin 0, Fin 0, Fin 0]" using indicators_zero by simp
  have lw: "length ?w = 7 \<and> indicators ?w = Inr [Fin 4, Fin (- 6), Fin 2, Fin 7, Fin 1, Fin 1,
      Fin 7, Fin 0, Fin 6, Fin (1 / 7), Fin (6 / 7), Fin 0, Fin 0, Fin 0]"
    using indicators_seven_values by simp
  from ratio_range_guards[of ?z _ seven_snapshot "()" ?fs] lz seven
  have a: "?fs ! 16 = drop 7 ?fs ! 9 \<and> ?fs ! 17 = drop 7 ?fs ! 10" by blast
  from ratio_range_guards[of ?w _ seven_snapshot "()" ?fs] lw mx mn
  have b: "pf_div (Fin 1) (Fin 7) = Inr (Fin (1 / 7)) \<and>
           pf_div (pf_sub (Fin 7) (Fin 1)) (Fin 7) = Inr (Fin (6 / 7))"
    by (simp add: pf_ne0_def)
  from a have c: "?fs ! 16 = Fin (1 / 7) \<and> ?fs ! 17 = Fin (6 / 7)" by simp
  from lz lw mz mx mn b c seven show ?thesis by blast
qed

text \<open>
  C9 says that with fewer than 7 raw prices the entries 7 to 20 are all \<open>0.0\<close>. The
  code pads the price list to seven entries before it tests \<open>len(oracle_values) >= 7\<close>,
  so the test always holds and the indicators are computed over the padded window:
  with one raw price most of the entries 7 to 17 are not zero, and with none the entry
  16 is \<open>1.0\<close>.
\<close>

theorem short_snapshot_indicators:
  "prepare_features single_snapshot () =
     Inr [Fin (92 / 100), Fin 0, Fin 0, Fin 0, Fin 0, Fin 0, Fin 0,
          Fin (23 / 175), Fin (92 / 100), Fin (sqrt (3174 / 30625)),
          Fin (92 / 100), Fin 0, Fin (92 / 100), Fin 0, Fin 1, Fin 0, Fin 1, Fin 1,
          Fin 0, Fin 0, Fin 0] \<and>
   prepare_features Map.empty () =
     Inr [Fin 0, Fin 0, Fin 0, Fin 0, Fin 0, Fin 0, Fin 0,
          Fin 0, Fin 0, Fin 0, Fin 0, Fin 0, Fin 0, Fin 0, Fin 0, Fin 0, Fin 1, Fin 0,
          Fin 0, Fin 0, Fin 0]"
  using features_single[where md = "()"] features_empty[where md = "()"] by (rule conjI)

text \<open>
  C10. On the snapshot of the specification's example the first seven entries are
  \<open>[0.92, 43250.0, 2280.5, 98.75, 0.0, 0.0, 0.0]\<close> (forex, commodities, crypto, then
  the padding), followed by the fourteen indicators of that zero-padded window: mean,
  momentum, standard deviation, maximum, minimum, first, last, the two counts, ratio,
  normalized range and three zeros.
\<close>

theorem prepare_features_example:
  "prepare_features example_snapshot md =
     Inr ([Fin (92 / 100), Fin 43250, Fin (22805 / 10), Fin (9875 / 100), Fin 0, Fin 0, Fin 0] @
          [Fin (4563017 / 700), Fin (92 / 100), Fin (sqrt (55241490571917 / 245000)),
           Fin 43250, Fin 0, Fin (92 / 100), Fin 0, Fin 3, Fin 1, Fin 1, Fin 1,
           Fin 0, Fin 0, Fin 0]) \<and>
   indicators [Fin (92 / 100), Fin 43250, Fin (22805 / 10), Fin (9875 / 100), Fin 0, Fin 0, Fin 0] =
     Inr [Fin (4563017 / 700), Fin (92 / 100), Fin (sqrt (55241490571917 / 245000)),
          Fin 43250, Fin 0, Fin (92 / 100), Fin 0, Fin 3, Fin 1, Fin 1, Fin 1,
          Fin 0, Fin 0, Fin 0]"
  using features_example indicators_example by (rule conjI)

end
